theory Spec2Isabelle
  imports Main
begin

section \<open>condacolab: installing a conda distribution on a notebook host\<close>

text \<open>
  The module \<^verbatim>\<open>condacolab.py\<close> has two entry points that matter here:
  \<^verbatim>\<open>install_from_url\<close>, a linear sequence of effects on the file system, on the
  running interpreter (\<^verbatim>\<open>sys.path\<close>, \<^verbatim>\<open>sys.executable\<close>, \<^verbatim>\<open>os.environ\<close>) and on
  the notebook kernel, and \<^verbatim>\<open>check\<close>, three assertions over the same state.

  The embedding passes the state explicitly (record \<open>world\<close>). What the module
  obtains from outside (the HTTP fetch, the processes it spawns, the search for an
  executable) is a parameter (record \<open>host\<close>). An exception is a value: every
  operation returns \<open>error option \<times> world\<close>, so that the state in which an exception
  leaves the process can be inspected.
\<close>

subsection \<open>Strings\<close>

text \<open>
  Strings are byte lists; the non-ASCII characters of the status messages are written as
  their UTF-8 bytes. \<open>NL\<close> is \<^verbatim>\<open>\n\<close>, \<open>DQ\<close> the double quote.
\<close>

abbreviation NL :: string where
  "NL \<equiv> [CHR 0x0A]"

abbreviation DQ :: string where
  "DQ \<equiv> [CHR 0x22]"

text \<open>\<^verbatim>\<open>sep.join(xs)\<close>\<close>

fun str_join :: "string \<Rightarrow> string list \<Rightarrow> string" where
  "str_join sep [] = []"
| "str_join sep [x] = x"
| "str_join sep (x # y # ys) = x @ sep @ str_join sep (y # ys)"

text \<open>\<^verbatim>\<open>s.split(c)\<close> for a separator of one character: never an empty result.\<close>

fun str_split :: "char \<Rightarrow> string \<Rightarrow> string list" where
  "str_split c [] = [[]]"
| "str_split c (x # xs) =
     (if x = c then [] # str_split c xs
      else (case str_split c xs of
              [] \<Rightarrow> [[x]]
            | y # ys \<Rightarrow> (x # y) # ys))"

text \<open>\<^verbatim>\<open>a in b\<close> on two strings: \<open>a\<close> occurs in \<open>b\<close> as a contiguous run.\<close>

fun starts_with :: "string \<Rightarrow> string \<Rightarrow> bool" where
  "starts_with [] s = True"
| "starts_with (a # as) [] = False"
| "starts_with (a # as) (b # bs) = (a = b \<and> starts_with as bs)"

fun str_contains :: "string \<Rightarrow> string \<Rightarrow> bool" where
  "str_contains a [] = (a = [])"
| "str_contains a (b # bs) = (starts_with a (b # bs) \<or> str_contains a bs)"

text \<open>The decimal rendering of a non-negative integer inside an f-string.\<close>

fun str_of_nat :: "nat \<Rightarrow> string" where
  "str_of_nat n =
     (if n < 10 then [''0123456789'' ! n]
      else str_of_nat (n div 10) @ [''0123456789'' ! (n mod 10)])"

declare str_of_nat.simps [simp del]

subsection \<open>Paths\<close>

text \<open>
  \<^verbatim>\<open>pathlib.Path\<close> on a POSIX host. A path is a root (empty, one slash or two) and its
  components; parsing drops empty components and single dots, keeps a root of exactly two
  slashes and turns any other run of leading slashes into one.
\<close>

record posix_path =
  root :: string
  parts :: "string list"

definition Path :: "string \<Rightarrow> posix_path" where
  "Path s =
     \<lparr>root = (if take 2 s = ''//'' \<and> take 3 s \<noteq> ''///'' then ''//''
              else if take 1 s = ''/'' then ''/'' else []),
      parts = filter (\<lambda>x. x \<noteq> [] \<and> x \<noteq> ''.'') (str_split (CHR ''/'') s)\<rparr>"

text \<open>\<^verbatim>\<open>str(p)\<close>\<close>

definition path_str :: "posix_path \<Rightarrow> string" where
  "path_str p =
     (if root p = [] \<and> parts p = [] then ''.''
      else root p @ str_join ''/'' (parts p))"

text \<open>\<^verbatim>\<open>p / s\<close>: an absolute right operand replaces the left one.\<close>

definition path_div :: "posix_path \<Rightarrow> string \<Rightarrow> posix_path" where
  "path_div p s =
     (let q = Path s in
      if root q \<noteq> [] then q else p\<lparr>parts := parts p @ parts q\<rparr>)"

subsection \<open>Files, dictionaries, errors\<close>

text \<open>
  The file system is a map from path strings to regular files; a file has its bytes and
  its executable bit. Two different strings are two different files (no links, no
  resolution of relative paths), and directories are implicit: opening a file for
  writing never fails in the model.
\<close>

type_synonym path = string

record file_entry =
  content :: string
  executable :: bool

type_synonym fsys = "path \<rightharpoonup> file_entry"

text \<open>
  A Python \<^verbatim>\<open>dict\<close> of strings keeps its keys in insertion order: an association list.
  Dictionaries are objects on a heap, so that the caller and the callee can hold the same
  one.
\<close>

type_synonym dict = "(string \<times> string) list"

datatype pyval = StrVal string | ListVal "string list"

text \<open>
  \<open>AssertionError text v\<close> carries the literal text of the message and the object that
  the f-string interpolates after it, if any (its rendering is Python's \<^verbatim>\<open>str\<close>).
  \<open>FetchError\<close> stands for whatever \<^verbatim>\<open>urlopen\<close> or reading the response raises.
\<close>

datatype error =
    FetchError string
  | FileNotFoundError path
  | KeyError string
  | AssertionError string "pyval option"

text \<open>
  A response delivers some bytes and then ends, or fails while it is read.
\<close>

datatype response = Response string "error option"

record host =
  urlopen :: "string \<Rightarrow> error + response"
  run_process :: "string list \<Rightarrow> fsys \<Rightarrow> fsys \<times> int"
  find_executable :: "string \<Rightarrow> (string \<rightharpoonup> string) \<Rightarrow> fsys \<Rightarrow> path option"

record world =
  files :: fsys
  sys_path :: "string list"
  environ :: "string \<rightharpoonup> string"
  sys_executable :: path
  version_info :: "nat \<times> nat"
  heap :: "nat \<Rightarrow> dict"
  heap_next :: nat
  stdout :: "string list"
  spawned :: "string list list"
  shutdown_requests :: "bool list"

subsection \<open>Primitive operations\<close>

definition py_print :: "string \<Rightarrow> world \<Rightarrow> world" where
  "py_print s w = w\<lparr>stdout := stdout w @ [s]\<rparr>"

text \<open>\<^verbatim>\<open>open(p, "w")\<close> and \<^verbatim>\<open>open(p, "a")\<close> followed by the writes: a new file is not
  executable, an existing one keeps its mode.\<close>

definition write_file :: "fsys \<Rightarrow> path \<Rightarrow> string \<Rightarrow> fsys" where
  "write_file fs p s =
     fs(p \<mapsto> (case fs p of
                None \<Rightarrow> \<lparr>content = s, executable = False\<rparr>
              | Some f \<Rightarrow> f\<lparr>content := s\<rparr>))"

definition append_file :: "fsys \<Rightarrow> path \<Rightarrow> string \<Rightarrow> fsys" where
  "append_file fs p s =
     fs(p \<mapsto> (case fs p of
                None \<Rightarrow> \<lparr>content = s, executable = False\<rparr>
              | Some f \<Rightarrow> f\<lparr>content := content f @ s\<rparr>))"

text \<open>\<^verbatim>\<open>os.unlink(p)\<close>\<close>

definition unlink :: "path \<Rightarrow> world \<Rightarrow> error option \<times> world" where
  "unlink p w =
     (case files w p of
        None \<Rightarrow> (Some (FileNotFoundError p), w)
      | Some f \<Rightarrow> (None, w\<lparr>files := (files w)(p := None)\<rparr>))"

text \<open>\<^verbatim>\<open>os.rename(src, dst)\<close>: an existing destination is replaced silently.\<close>

definition rename :: "path \<Rightarrow> path \<Rightarrow> world \<Rightarrow> error option \<times> world" where
  "rename src dst w =
     (case files w src of
        None \<Rightarrow> (Some (FileNotFoundError src), w)
      | Some f \<Rightarrow> (None, w\<lparr>files := ((files w)(src := None))(dst \<mapsto> f)\<rparr>))"

text \<open>\<^verbatim>\<open>subprocess.call(argv)\<close>: the process acts on the file system and returns its exit
  status.\<close>

definition call :: "host \<Rightarrow> string list \<Rightarrow> world \<Rightarrow> int \<times> world" where
  "call h argv w =
     (let (fs, rc) = run_process h argv (files w) in
      (rc, w\<lparr>files := fs, spawned := spawned w @ [argv]\<rparr>))"

text \<open>\<^verbatim>\<open>d[k] = v\<close>: an existing key keeps its place, a new one goes last.\<close>

fun dict_setitem :: "dict \<Rightarrow> string \<Rightarrow> string \<Rightarrow> dict" where
  "dict_setitem [] k v = [(k, v)]"
| "dict_setitem ((k', v') # d) k v =
     (if k' = k then (k, v) # d else (k', v') # dict_setitem d k v)"

text \<open>\<^verbatim>\<open>env or {}\<close>: \<^verbatim>\<open>None\<close> and the empty dictionary are both falsy, and then \<^verbatim>\<open>{}\<close>
  is a new object.\<close>

definition env_or_new :: "nat option \<Rightarrow> world \<Rightarrow> nat \<times> world" where
  "env_or_new env w =
     (case env of
        None \<Rightarrow> (heap_next w, w\<lparr>heap := (heap w)(heap_next w := []), heap_next := Suc (heap_next w)\<rparr>)
      | Some a \<Rightarrow>
          if heap w a = []
          then (heap_next w, w\<lparr>heap := (heap w)(heap_next w := []), heap_next := Suc (heap_next w)\<rparr>)
          else (a, w))"

subsection \<open>\<^verbatim>\<open>install_from_url\<close>\<close>

definition PREFIX :: string where
  "PREFIX = ''/usr/local''"

definition installer_fn :: path where
  "installer_fn = ''__installer__.sh''"

text \<open>Lines 65 to 68: the download. \<^verbatim>\<open>urlopen\<close> is entered first, so when it raises the
  artifact is not even created.\<close>

definition fetch_installer :: "host \<Rightarrow> string \<Rightarrow> world \<Rightarrow> error option \<times> world" where
  "fetch_installer h installer_url w =
     (let w1 = py_print ([CHR 0xE2, CHR 0x8F, CHR 0xAC] @ '' Downloading '' @ installer_url @ ''...'') w in
      case urlopen h installer_url of
        Inl e \<Rightarrow> (Some e, w1)
      | Inr (Response body failure) \<Rightarrow>
          (failure, w1\<lparr>files := write_file (files w1) installer_fn body\<rparr>))"

text \<open>Lines 70 to 72: the installer runs, its exit status is dropped, the artifact is
  unlinked.\<close>

definition run_installer :: "host \<Rightarrow> string \<Rightarrow> world \<Rightarrow> error option \<times> world" where
  "run_installer h prefix w =
     (let w1 = py_print ([CHR 0xF0, CHR 0x9F, CHR 0x93, CHR 0xA6] @ '' Installing...'') w;
          (rc, w2) = call h [''bash'', installer_fn, ''-bfp'', prefix] w1
      in unlink installer_fn w2)"

text \<open>Line 75\<close>

definition cuda_version :: "(string \<rightharpoonup> string) \<Rightarrow> string" where
  "cuda_version env =
     str_join ''.'' (take 2 (str_split (CHR ''.'')
        (case env ''CUDA_VERSION'' of None \<Rightarrow> ''*.*.*'' | Some v \<Rightarrow> v)))"

definition site_packages :: "string \<Rightarrow> nat \<Rightarrow> nat \<Rightarrow> string" where
  "site_packages p pymaj pymin =
     p @ ''/lib/python'' @ str_of_nat pymaj @ ''.'' @ str_of_nat pymin @ ''/site-packages''"

definition ipython_config :: path where
  "ipython_config = ''/etc/ipython/ipython_config.py''"

definition exec_lines_snippet :: "string \<Rightarrow> nat \<Rightarrow> nat \<Rightarrow> string" where
  "exec_lines_snippet p pymaj pymin =
     NL @ ''c.InteractiveShellApp.exec_lines = ['' @ NL @
     replicate 20 (CHR '' '') @ DQ @ ''import sys'' @ DQ @ '','' @ NL @
     replicate 20 (CHR '' '') @ DQ @ ''sp = f'' @ [CHR 0x27] @ site_packages p pymaj pymin @ [CHR 0x27] @ DQ @ '','' @ NL @
     replicate 20 (CHR '' '') @ DQ @ ''if sp not in sys.path:'' @ DQ @ '','' @ NL @
     replicate 20 (CHR '' '') @ DQ @ ''    sys.path.insert(0, sp)'' @ DQ @ '','' @ NL @
     replicate 16 (CHR '' '') @ '']'' @ NL @
     replicate 12 (CHR '' '')"

text \<open>Lines 82 to 84: the three writes to the pin file.\<close>

definition pin_lines :: "nat \<Rightarrow> nat \<Rightarrow> string \<Rightarrow> string list" where
  "pin_lines pymaj pymin cuda =
     [''python '' @ str_of_nat pymaj @ ''.'' @ str_of_nat pymin @ ''.*'' @ NL,
      ''python_abi '' @ str_of_nat pymaj @ ''.'' @ str_of_nat pymin @ ''.* *cp''
         @ str_of_nat pymaj @ str_of_nat pymin @ ''*'' @ NL,
      ''cudatoolkit '' @ cuda @ ''.*'' @ NL]"

text \<open>Lines 74 to 101: the configuration files and the live search path. From line 76 on
  \<^verbatim>\<open>prefix\<close> is a \<^verbatim>\<open>Path\<close>, and an f-string renders it with \<^verbatim>\<open>str\<close>. The
  \<^verbatim>\<open>mkdir(parents=True, exist_ok=True)\<close> of line 78 changes nothing in a file system
  whose directories are implicit.\<close>

definition adjust_configuration :: "string \<Rightarrow> world \<Rightarrow> world" where
  "adjust_configuration prefix w =
     (let w1 = py_print ([CHR 0xF0, CHR 0x9F, CHR 0x93, CHR 0x8C] @ '' Adjusting configuration...'') w;
          cuda = cuda_version (environ w1);
          prefix' = Path prefix;
          condameta = path_div prefix' ''conda-meta'';
          (pymaj, pymin) = version_info w1;
          w2 = w1\<lparr>files := append_file (files w1) (path_str (path_div condameta ''pinned''))
                              (concat (pin_lines pymaj pymin cuda))\<rparr>;
          w3 = w2\<lparr>files := append_file (files w2) (path_str (path_div prefix' ''.condarc''))
                              (''always_yes: true'' @ NL)\<rparr>;
          w4 = w3\<lparr>files := append_file (files w3) ipython_config
                              (exec_lines_snippet (path_str prefix') pymaj pymin)\<rparr>;
          sitepackages = site_packages (path_str prefix') pymaj pymin
      in if sitepackages \<notin> set (sys_path w4)
         then w4\<lparr>sys_path := sitepackages # sys_path w4\<rparr>
         else w4)"

text \<open>Line 105\<close>

definition ld_library_path :: "string \<Rightarrow> string" where
  "ld_library_path p = DQ @ p @ ''/lib:$LD_LIBRARY_PATH'' @ DQ"

text \<open>Lines 109 to 111\<close>

definition envstr :: "dict \<Rightarrow> string" where
  "envstr d = str_join '' '' (map (\<lambda>(k, v). k @ ''='' @ v) d)"

definition shim_script :: "string \<Rightarrow> dict \<Rightarrow> string" where
  "shim_script p d =
     ''#!/bin/bash'' @ NL @
     ''exec env '' @ envstr d @ '' '' @ p @ ''/bin/python -x $@'' @ NL"

text \<open>Lines 103 to 112: the environment mapping, the renamed interpreter, the shim.\<close>

definition patch_environment ::
  "host \<Rightarrow> string \<Rightarrow> nat option \<Rightarrow> world \<Rightarrow> error option \<times> world" where
  "patch_environment h prefix env w =
     (let w1 = py_print ([CHR 0xF0, CHR 0x9F, CHR 0xA9, CHR 0xB9] @ '' Patching environment...'') w;
          p = path_str (Path prefix);
          (a, w2) = env_or_new env w1;
          w3 = w2\<lparr>heap := (heap w2)(a := dict_setitem (heap w2 a) ''LD_LIBRARY_PATH'' (ld_library_path p))\<rparr>;
          exe = sys_executable w3
      in case rename exe (exe @ ''.real'') w3 of
           (Some e, w4) \<Rightarrow> (Some e, w4)
         | (None, w4) \<Rightarrow>
             (let w5 = w4\<lparr>files := write_file (files w4) exe (shim_script p (heap w4 a))\<rparr>;
                  (rc, w6) = call h [''chmod'', ''+x'', exe] w5
              in (None, w6)))"

text \<open>Lines 114 and 115\<close>

definition restart_kernel :: "world \<Rightarrow> world" where
  "restart_kernel w =
     (let w1 = py_print ([CHR 0xF0, CHR 0x9F, CHR 0x94, CHR 0x81] @ '' Restarting kernel...'') w
      in w1\<lparr>shutdown_requests := shutdown_requests w1 @ [True]\<rparr>)"

definition install_from_url ::
  "host \<Rightarrow> string \<Rightarrow> string \<Rightarrow> nat option \<Rightarrow> world \<Rightarrow> error option \<times> world" where
  "install_from_url h installer_url prefix env w =
     (case fetch_installer h installer_url w of
        (Some e, w1) \<Rightarrow> (Some e, w1)
      | (None, w1) \<Rightarrow>
     (case run_installer h prefix w1 of
        (Some e, w2) \<Rightarrow> (Some e, w2)
      | (None, w2) \<Rightarrow>
     (case patch_environment h prefix env (adjust_configuration prefix w2) of
        (Some e, w3) \<Rightarrow> (Some e, w3)
      | (None, w3) \<Rightarrow> (None, restart_kernel w3))))"

subsection \<open>\<^verbatim>\<open>check\<close>\<close>

definition boom :: string where
  "boom = [CHR 0xF0, CHR 0x9F, CHR 0x92, CHR 0xA5, CHR 0xF0, CHR 0x9F, CHR 0x92, CHR 0x94,
           CHR 0xF0, CHR 0x9F, CHR 0x92, CHR 0xA5]"

text \<open>An \<^verbatim>\<open>assert\<close> on the result of \<^verbatim>\<open>find_executable\<close> fails on \<^verbatim>\<open>None\<close> and on the
  empty string. In \<^verbatim>\<open>check\<close> the prefix is not turned into a \<^verbatim>\<open>Path\<close>.\<close>

definition check :: "host \<Rightarrow> string \<Rightarrow> world \<Rightarrow> error option \<times> world" where
  "check h prefix w =
     (if (case find_executable h ''conda'' (environ w) (files w) of
            None \<Rightarrow> True | Some p \<Rightarrow> p = [])
      then (Some (AssertionError (boom @ '' Conda not found!'') None), w)
      else
        (let (pymaj, pymin) = version_info w;
             sitepackages = site_packages prefix pymaj pymin
         in if sitepackages \<notin> set (sys_path w)
            then (Some (AssertionError (boom @ '' PYTHONPATH was not patched! Value: '')
                          (Some (ListVal (sys_path w)))), w)
            else
              (case environ w ''LD_LIBRARY_PATH'' of
                 None \<Rightarrow> (Some (KeyError ''LD_LIBRARY_PATH''), w)
               | Some v \<Rightarrow>
                   if \<not> str_contains (prefix @ ''/lib'') v
                   then (Some (AssertionError (boom @ '' LD_LIBRARY_PATH was not patched! Value: '')
                                 (Some (StrVal v))), w)
                   else (None, py_print ([CHR 0xE2, CHR 0x9C, CHR 0xA8, CHR 0xF0, CHR 0x9F, CHR 0x8D,
                                          CHR 0xB0, CHR 0xE2, CHR 0x9C, CHR 0xA8]
                                         @ '' Everything looks OK!'') w))))"

subsection \<open>The environment of a run\<close>

text \<open>
  What \<^verbatim>\<open>chmod +x p\<close> does to the file system, and the hosts on which the process
  spawned under that name does exactly this.
\<close>

definition chmod_x :: "fsys \<Rightarrow> path \<Rightarrow> fsys \<times> int" where
  "chmod_x fs p =
     (case fs p of
        None \<Rightarrow> (fs, 1)
      | Some f \<Rightarrow> (fs(p \<mapsto> f\<lparr>executable := True\<rparr>), 0))"

definition posix_chmod :: "host \<Rightarrow> bool" where
  "posix_chmod h = (\<forall>p fs. run_process h [''chmod'', ''+x'', p] fs = chmod_x fs p)"

text \<open>The process started with \<open>argv\<close> leaves the file at \<open>p\<close> as it finds it.\<close>

definition process_keeps :: "host \<Rightarrow> string list \<Rightarrow> path \<Rightarrow> bool" where
  "process_keeps h argv p = (\<forall>fs. fst (run_process h argv fs) p = fs p)"

text \<open>The paths of lines 81 and 86, and the path of line 99.\<close>

definition pinned_path :: "string \<Rightarrow> path" where
  "pinned_path prefix = path_str (path_div (path_div (Path prefix) ''conda-meta'') ''pinned'')"

definition condarc_path :: "string \<Rightarrow> path" where
  "condarc_path prefix = path_str (path_div (Path prefix) ''.condarc'')"

definition site_packages_of :: "string \<Rightarrow> world \<Rightarrow> string" where
  "site_packages_of prefix w =
     site_packages (path_str (Path prefix)) (fst (version_info w)) (snd (version_info w))"

text \<open>The mapping the caller passes: \<^verbatim>\<open>None\<close> passes no pair.\<close>

definition caller_env :: "nat option \<Rightarrow> world \<Rightarrow> dict" where
  "caller_env env w = (case env of None \<Rightarrow> [] | Some a \<Rightarrow> heap w a)"

text \<open>\<open>n\<close> calls in a row with the same arguments; an exception ends the row. Each call
  starts in the state the one before has left.\<close>

fun install_n ::
  "nat \<Rightarrow> host \<Rightarrow> string \<Rightarrow> string \<Rightarrow> nat option \<Rightarrow> world \<Rightarrow> error option \<times> world" where
  "install_n 0 h installer_url prefix env w = (None, w)"
| "install_n (Suc n) h installer_url prefix env w =
     (case install_from_url h installer_url prefix env w of
        (Some e, w1) \<Rightarrow> (Some e, w1)
      | (None, w1) \<Rightarrow> install_n n h installer_url prefix env w1)"

text \<open>
  A stub host: one URL answers with a small installer, which leaves a marker under the
  prefix and exits with status 3; every other URL fails. A notebook process on it:
  Python 3.7, one empty dictionary at address 0.
\<close>

definition stub_url :: string where
  "stub_url = ''https://example.org/stub.sh''"

definition stub_host :: host where
  "stub_host =
     \<lparr>urlopen = (\<lambda>u. if u = stub_url then Inr (Response ''touch $2/marker'' None)
                     else Inl (FetchError ''HTTP Error 404'')),
      run_process = (\<lambda>argv fs.
         if length argv = 3 \<and> take 2 argv = [''chmod'', ''+x''] then chmod_x fs (argv ! 2)
         else if length argv = 4 \<and> take 1 argv = [''bash'']
         then (fs((argv ! 3) @ ''/marker'' \<mapsto> \<lparr>content = [], executable = False\<rparr>), 3)
         else (fs, 127)),
      find_executable = (\<lambda>name env fs.
         if fs (''/usr/local/bin/'' @ name) = None then None
         else Some (''/usr/local/bin/'' @ name))\<rparr>"

definition notebook :: world where
  "notebook =
     \<lparr>files = [''/usr/bin/python3'' \<mapsto> \<lparr>content = ''ELF'', executable = True\<rparr>],
      sys_path = [''/content'', ''/usr/lib/python3.7''],
      environ = [''CUDA_VERSION'' \<mapsto> ''11.2.152''],
      sys_executable = ''/usr/bin/python3'',
      version_info = (3, 7),
      heap = (\<lambda>a. []),
      heap_next = 1,
      stdout = [],
      spawned = [],
      shutdown_requests = []\<rparr>"

text \<open>The same process with the site-packages directory already on its search path,
  behind another entry; and with a caller's dictionary of two pairs at address 0.\<close>

definition notebook_listed :: world where
  "notebook_listed =
     notebook\<lparr>sys_path := [''/content'', ''/usr/local/lib/python3.7/site-packages'']\<rparr>"

definition notebook_env :: world where
  "notebook_env =
     notebook\<lparr>heap := (\<lambda>a. if a = 0 then [(''LD_LIBRARY_PATH'', ''/opt/lib''), (''FOO'', ''bar'')]
                          else [])\<rparr>"

text \<open>A host whose response breaks off while it is read, and a process after the restart
  in which \<^verbatim>\<open>conda\<close> is installed and the search path is patched, but the
  variable \<^verbatim>\<open>LD_LIBRARY_PATH\<close> is not set.\<close>

definition broken_host :: host where
  "broken_host =
     stub_host\<lparr>urlopen := (\<lambda>u. Inr (Response ''tou'' (Some (FetchError ''IncompleteRead''))))\<rparr>"

definition restarted :: world where
  "restarted =
     notebook\<lparr>files := [''/usr/local/bin/conda'' \<mapsto> \<lparr>content = ''#!/usr/local/bin/python'', executable = True\<rparr>],
              sys_path := [''/usr/local/lib/python3.7/site-packages'', ''/content''],
              environ := [''CUDA_VERSION'' \<mapsto> ''11.2.152'']\<rparr>"


text \<open>The three appends of lines 81 to 98, on a file system.\<close>

definition pin_text :: "world \<Rightarrow> string" where
  "pin_text w =
     concat (pin_lines (fst (version_info w)) (snd (version_info w)) (cuda_version (environ w)))"

definition config_appended :: "string \<Rightarrow> world \<Rightarrow> fsys \<Rightarrow> fsys" where
  "config_appended prefix w fs =
     append_file
       (append_file
          (append_file fs (pinned_path prefix) (pin_text w))
          (condarc_path prefix) (''always_yes: true'' @ NL))
       ipython_config
       (exec_lines_snippet (path_str (Path prefix)) (fst (version_info w)) (snd (version_info w)))"

text \<open>The file that lines 108 to 112 leave at the executable path.\<close>

definition shim_file :: "string \<Rightarrow> nat option \<Rightarrow> world \<Rightarrow> file_entry" where
  "shim_file prefix env w =
     \<lparr>content = shim_script (path_str (Path prefix))
        (dict_setitem (caller_env env w) ''LD_LIBRARY_PATH'' (ld_library_path (path_str (Path prefix)))),
      executable = True\<rparr>"

text \<open>The notebook process after one run on the stub host, and after two.\<close>

definition notebook_once :: world where
  "notebook_once = snd (install_from_url stub_host stub_url PREFIX None notebook)"

definition notebook_twice :: world where
  "notebook_twice = snd (install_from_url stub_host stub_url PREFIX None notebook_once)"

text \<open>The notebook process without the variable \<^verbatim>\<open>CUDA_VERSION\<close>.\<close>

definition notebook_cpu :: world where
  "notebook_cpu = notebook\<lparr>environ := Map.empty\<rparr>"

section \<open>The phases, field by field\<close>

lemma install_from_url_success:
  assumes "install_from_url h url prefix env w = (None, w')"
  obtains w1 w2 w3 where
    "fetch_installer h url w = (None, w1)"
    "run_installer h prefix w1 = (None, w2)"
    "patch_environment h prefix env (adjust_configuration prefix w2) = (None, w3)"
    "w' = restart_kernel w3"
  using assms
  by (auto simp: install_from_url_def split: prod.splits option.splits)

lemma fetch_installer_frame:
  assumes "fetch_installer h url w = (r, w1)"
  shows "sys_path w1 = sys_path w" "environ w1 = environ w"
    "sys_executable w1 = sys_executable w" "version_info w1 = version_info w"
    "heap w1 = heap w" "heap_next w1 = heap_next w" "spawned w1 = spawned w"
    "shutdown_requests w1 = shutdown_requests w"
  using assms
  by (auto simp: fetch_installer_def py_print_def Let_def split: sum.splits response.splits)

lemma fetch_installer_files:
  assumes "fetch_installer h url w = (r, w1)" "p \<noteq> installer_fn"
  shows "files w1 p = files w p"
  using assms
  by (auto simp: fetch_installer_def py_print_def write_file_def Let_def
      split: sum.splits response.splits)

lemma run_installer_frame:
  assumes "run_installer h prefix w = (r, w2)"
  shows "sys_path w2 = sys_path w" "environ w2 = environ w"
    "sys_executable w2 = sys_executable w" "version_info w2 = version_info w"
    "heap w2 = heap w" "heap_next w2 = heap_next w"
    "spawned w2 = spawned w @ [[''bash'', installer_fn, ''-bfp'', prefix]]"
    "shutdown_requests w2 = shutdown_requests w"
  using assms
  by (auto simp: run_installer_def py_print_def call_def unlink_def Let_def
      split: prod.splits option.splits)

lemma run_installer_files:
  assumes "run_installer h prefix w = (None, w2)"
  shows "files w2 = (fst (run_process h [''bash'', installer_fn, ''-bfp'', prefix] (files w)))(installer_fn := None)"
  using assms
  by (auto simp: run_installer_def py_print_def call_def unlink_def Let_def
      split: prod.splits option.splits)

lemma adjust_configuration_frame:
  shows "environ (adjust_configuration prefix w) = environ w"
    "sys_executable (adjust_configuration prefix w) = sys_executable w"
    "version_info (adjust_configuration prefix w) = version_info w"
    "heap (adjust_configuration prefix w) = heap w"
    "heap_next (adjust_configuration prefix w) = heap_next w"
    "spawned (adjust_configuration prefix w) = spawned w"
    "shutdown_requests (adjust_configuration prefix w) = shutdown_requests w"
  by (simp_all add: adjust_configuration_def py_print_def Let_def split: prod.splits)

lemma adjust_configuration_sys_path:
  "sys_path (adjust_configuration prefix w) =
     (if site_packages_of prefix w \<in> set (sys_path w) then sys_path w
      else site_packages_of prefix w # sys_path w)"
  by (simp add: adjust_configuration_def site_packages_of_def py_print_def Let_def
      split: prod.splits)

lemma adjust_configuration_files:
  "files (adjust_configuration prefix w) =
     append_file
       (append_file
          (append_file (files w) (pinned_path prefix)
             (concat (pin_lines (fst (version_info w)) (snd (version_info w)) (cuda_version (environ w)))))
          (condarc_path prefix) (''always_yes: true'' @ NL))
       ipython_config
       (exec_lines_snippet (path_str (Path prefix)) (fst (version_info w)) (snd (version_info w)))"
  by (simp add: adjust_configuration_def py_print_def Let_def pinned_path_def condarc_path_def
      split: prod.splits)

lemma patch_environment_frame:
  assumes "patch_environment h prefix env w = (r, w3)"
  shows "sys_path w3 = sys_path w" "environ w3 = environ w"
    "sys_executable w3 = sys_executable w" "version_info w3 = version_info w"
    "shutdown_requests w3 = shutdown_requests w"
  using assms
  by (auto simp: patch_environment_def py_print_def env_or_new_def rename_def call_def Let_def
      split: prod.splits option.splits if_splits)

lemma patch_environment_heap:
  assumes "patch_environment h prefix env w = (r, w3)"
  shows "heap w3 =
     (case env of
        None \<Rightarrow> (heap w)(heap_next w := [(''LD_LIBRARY_PATH'', ld_library_path (path_str (Path prefix)))])
      | Some a \<Rightarrow>
          if heap w a = []
          then (heap w)(heap_next w := [(''LD_LIBRARY_PATH'', ld_library_path (path_str (Path prefix)))])
          else (heap w)(a := dict_setitem (heap w a) ''LD_LIBRARY_PATH'' (ld_library_path (path_str (Path prefix)))))"
  using assms
  by (auto simp: patch_environment_def py_print_def env_or_new_def rename_def call_def Let_def
      split: prod.splits option.splits if_splits)

lemma patch_environment_files:
  assumes "patch_environment h prefix env w = (None, w3)"
  shows "\<exists>f. files w (sys_executable w) = Some f \<and>
     files w3 = fst (run_process h [''chmod'', ''+x'', sys_executable w]
       (((files w)(sys_executable w := None))(sys_executable w @ ''.real'' \<mapsto> f,
          sys_executable w \<mapsto> \<lparr>content = shim_script (path_str (Path prefix))
             (dict_setitem (caller_env env w) ''LD_LIBRARY_PATH'' (ld_library_path (path_str (Path prefix)))),
             executable = False\<rparr>)))"
  using assms
  by (auto simp: patch_environment_def py_print_def env_or_new_def rename_def call_def Let_def
      write_file_def caller_env_def
      split: prod.splits option.splits if_splits)

lemma restart_kernel_frame:
  shows "files (restart_kernel w) = files w" "sys_path (restart_kernel w) = sys_path w"
    "environ (restart_kernel w) = environ w" "sys_executable (restart_kernel w) = sys_executable w"
    "version_info (restart_kernel w) = version_info w" "heap (restart_kernel w) = heap w"
    "heap_next (restart_kernel w) = heap_next w" "spawned (restart_kernel w) = spawned w"
  by (simp_all add: restart_kernel_def py_print_def Let_def)

section \<open>The whole sequence\<close>

lemma install_from_url_sys_path:
  assumes "install_from_url h url prefix env w = (None, w')"
  shows "sys_path w' =
     (if site_packages_of prefix w \<in> set (sys_path w) then sys_path w
      else site_packages_of prefix w # sys_path w)"
proof -
  from assms obtain w1 w2 w3 where
    f: "fetch_installer h url w = (None, w1)" and
    r: "run_installer h prefix w1 = (None, w2)" and
    p: "patch_environment h prefix env (adjust_configuration prefix w2) = (None, w3)" and
    k: "w' = restart_kernel w3"
    by (rule install_from_url_success)
  have "sys_path w2 = sys_path w" "version_info w2 = version_info w"
    using fetch_installer_frame [OF f] run_installer_frame [OF r] by simp_all
  then have "site_packages_of prefix w2 = site_packages_of prefix w"
    by (simp add: site_packages_of_def)
  with \<open>sys_path w2 = sys_path w\<close> show ?thesis
    using patch_environment_frame(1) [OF p] k
    by (simp add: restart_kernel_frame adjust_configuration_sys_path)
qed

lemma fetch_installer_ok:
  assumes "urlopen h url = Inr (Response body None)"
  shows "fst (fetch_installer h url w) = None"
    and "files (snd (fetch_installer h url w)) installer_fn \<noteq> None"
  using assms by (simp_all add: fetch_installer_def py_print_def write_file_def Let_def)

lemma process_keepsD:
  "process_keeps h argv p \<Longrightarrow> fst (run_process h argv fs) p = fs p"
  by (simp add: process_keeps_def)

lemma run_installer_ok:
  assumes "process_keeps h [''bash'', installer_fn, ''-bfp'', prefix] installer_fn"
    and "files w installer_fn \<noteq> None"
  shows "fst (run_installer h prefix w) = None"
proof -
  have "fst (run_process h [''bash'', installer_fn, ''-bfp'', prefix] (files w)) installer_fn
          = files w installer_fn"
    using assms(1) by (rule process_keepsD)
  with assms(2) show ?thesis
    by (auto simp: run_installer_def py_print_def call_def unlink_def Let_def
        split: prod.splits option.splits)
qed

lemma append_file_present: "fs p \<noteq> None \<Longrightarrow> append_file fs q s p \<noteq> None"
  by (simp add: append_file_def)

lemma adjust_configuration_present:
  "files w p \<noteq> None \<Longrightarrow> files (adjust_configuration prefix w) p \<noteq> None"
  by (simp add: adjust_configuration_files append_file_present)

lemma patch_environment_ok:
  assumes "files w (sys_executable w) \<noteq> None"
  shows "fst (patch_environment h prefix env w) = None"
  using assms
  by (auto simp: patch_environment_def py_print_def env_or_new_def rename_def call_def Let_def
      split: prod.splits option.splits)

lemma install_from_url_returns:
  assumes u: "urlopen h url = Inr (Response body None)"
    and ka: "process_keeps h [''bash'', installer_fn, ''-bfp'', prefix] installer_fn"
    and ke: "process_keeps h [''bash'', installer_fn, ''-bfp'', prefix] (sys_executable w)"
    and ex: "files w (sys_executable w) \<noteq> None"
    and ne: "sys_executable w \<noteq> installer_fn"
  shows "fst (install_from_url h url prefix env w) = None"
proof -
  obtain w1 where f: "fetch_installer h url w = (None, w1)"
    using fetch_installer_ok(1) [OF u, of w] by (cases "fetch_installer h url w") simp
  have a1: "files w1 installer_fn \<noteq> None"
    using fetch_installer_ok(2) [OF u, of w] f by simp
  obtain w2 where r: "run_installer h prefix w1 = (None, w2)"
    using run_installer_ok [OF ka a1] by (cases "run_installer h prefix w1") simp
  have e1: "sys_executable w1 = sys_executable w" "files w1 (sys_executable w) = files w (sys_executable w)"
    using fetch_installer_frame(3) [OF f] fetch_installer_files [OF f ne] by simp_all
  have e2: "sys_executable w2 = sys_executable w"
    using run_installer_frame(3) [OF r] e1 by simp
  have "files w2 (sys_executable w) = files w1 (sys_executable w)"
    using run_installer_files [OF r] process_keepsD [OF ke, of "files w1"] ne by simp
  with e1 ex have "files w2 (sys_executable w) \<noteq> None" by simp
  then have "files (adjust_configuration prefix w2) (sys_executable (adjust_configuration prefix w2)) \<noteq> None"
    using e2 by (simp add: adjust_configuration_frame adjust_configuration_present)
  then have "fst (patch_environment h prefix env (adjust_configuration prefix w2)) = None"
    by (rule patch_environment_ok)
  then obtain w3 where "patch_environment h prefix env (adjust_configuration prefix w2) = (None, w3)"
    by (cases "patch_environment h prefix env (adjust_configuration prefix w2)") simp
  with f r show ?thesis
    by (simp add: install_from_url_def)
qed

section \<open>The stub host\<close>

lemma stub_host_chmod: "posix_chmod stub_host"
  by (simp add: posix_chmod_def stub_host_def)

lemma stub_host_keeps:
  "p \<noteq> prefix @ ''/marker'' \<Longrightarrow>
     process_keeps stub_host [''bash'', installer_fn, ''-bfp'', prefix] p"
  by (simp add: process_keeps_def stub_host_def)

lemma stub_urlopen: "urlopen stub_host stub_url = Inr (Response ''touch $2/marker'' None)"
  by (simp add: stub_host_def)

lemma stub_returns:
  assumes "files w (sys_executable w) \<noteq> None"
    and "sys_executable w \<noteq> installer_fn"
    and "sys_executable w \<noteq> prefix @ ''/marker''"
    and "installer_fn \<noteq> prefix @ ''/marker''"
  shows "install_from_url stub_host stub_url prefix env w =
     (None, snd (install_from_url stub_host stub_url prefix env w))"
proof -
  have "fst (install_from_url stub_host stub_url prefix env w) = None"
    using stub_urlopen stub_host_keeps [OF assms(4)] stub_host_keeps [OF assms(3)]
      assms(1) assms(2)
    by (rule install_from_url_returns)
  then show ?thesis by (simp add: prod_eq_iff)
qed

lemma notebook_fields:
  "sys_path notebook = [''/content'', ''/usr/lib/python3.7'']"
  "sys_executable notebook = ''/usr/bin/python3''"
  "version_info notebook = (3, 7)"
  "files notebook ''/usr/bin/python3'' = Some \<lparr>content = ''ELF'', executable = True\<rparr>"
  "heap notebook = (\<lambda>a. [])"
  "heap_next notebook = 1"
  "environ notebook ''CUDA_VERSION'' = Some ''11.2.152''"
  by (simp_all add: notebook_def)

lemma notebook_listed_fields:
  "sys_path notebook_listed = [''/content'', ''/usr/local/lib/python3.7/site-packages'']"
  "sys_executable notebook_listed = ''/usr/bin/python3''"
  "version_info notebook_listed = (3, 7)"
  "files notebook_listed ''/usr/bin/python3'' = Some \<lparr>content = ''ELF'', executable = True\<rparr>"
  by (simp_all add: notebook_listed_def notebook_def)

lemma notebook_env_fields:
  "sys_executable notebook_env = ''/usr/bin/python3''"
  "version_info notebook_env = (3, 7)"
  "files notebook_env ''/usr/bin/python3'' = Some \<lparr>content = ''ELF'', executable = True\<rparr>"
  "heap notebook_env 0 = [(''LD_LIBRARY_PATH'', ''/opt/lib''), (''FOO'', ''bar'')]"
  by (simp_all add: notebook_env_def notebook_def)

lemma stub_run:
  "install_from_url stub_host stub_url PREFIX env notebook =
     (None, snd (install_from_url stub_host stub_url PREFIX env notebook))"
  by (rule stub_returns) (simp_all add: notebook_fields installer_fn_def PREFIX_def)

lemma stub_run_listed:
  "install_from_url stub_host stub_url PREFIX env notebook_listed =
     (None, snd (install_from_url stub_host stub_url PREFIX env notebook_listed))"
  by (rule stub_returns) (simp_all add: notebook_listed_fields installer_fn_def PREFIX_def)

lemma stub_run_env:
  "install_from_url stub_host stub_url PREFIX env notebook_env =
     (None, snd (install_from_url stub_host stub_url PREFIX env notebook_env))"
  by (rule stub_returns) (simp_all add: notebook_env_fields installer_fn_def PREFIX_def)

lemma path_str_PREFIX: "path_str (Path PREFIX) = ''/usr/local''"
  by (simp add: PREFIX_def Path_def path_str_def)

lemma site_packages_usr_local:
  "site_packages ''/usr/local'' 3 7 = ''/usr/local/lib/python3.7/site-packages''"
  by (simp add: site_packages_def str_of_nat.simps)

lemma site_packages_of_notebook:
  "site_packages_of PREFIX notebook = ''/usr/local/lib/python3.7/site-packages''"
  "site_packages_of PREFIX notebook_listed = ''/usr/local/lib/python3.7/site-packages''"
  by (simp_all add: site_packages_of_def path_str_PREFIX notebook_fields notebook_listed_fields
      site_packages_usr_local)

section \<open>The live search path\<close>

text \<open>
  C2 (as amended). After a run that completes, the site-packages directory of the prefix is
  on \<^verbatim>\<open>sys.path\<close>. When it was not there before, it is inserted at index 0 and occurs
  exactly once. When it was there before, \<^verbatim>\<open>sys.path\<close> is left as it was: no
  duplicate is inserted, and the entry keeps the place and the number of occurrences it had.
\<close>

theorem site_packages_inserted_once:
  assumes "install_from_url h url prefix env w = (None, w')"
  shows "site_packages_of prefix w \<in> set (sys_path w') \<and>
     (site_packages_of prefix w \<notin> set (sys_path w) \<longrightarrow>
        sys_path w' = site_packages_of prefix w # sys_path w \<and>
        sys_path w' ! 0 = site_packages_of prefix w \<and>
        count_list (sys_path w') (site_packages_of prefix w) = 1) \<and>
     (site_packages_of prefix w \<in> set (sys_path w) \<longrightarrow> sys_path w' = sys_path w)"
  using install_from_url_sys_path [OF assms]
  by (auto simp: count_list_0_iff)

theorem site_packages_inserted_once_witness:
  "install_from_url stub_host stub_url PREFIX None notebook =
     (None, snd (install_from_url stub_host stub_url PREFIX None notebook)) \<and>
   site_packages_of PREFIX notebook \<notin> set (sys_path notebook) \<and>
   sys_path (snd (install_from_url stub_host stub_url PREFIX None notebook)) =
     [''/usr/local/lib/python3.7/site-packages'', ''/content'', ''/usr/lib/python3.7''] \<and>
   install_from_url stub_host stub_url PREFIX None notebook_listed =
     (None, snd (install_from_url stub_host stub_url PREFIX None notebook_listed)) \<and>
   site_packages_of PREFIX notebook_listed \<in> set (sys_path notebook_listed) \<and>
   sys_path (snd (install_from_url stub_host stub_url PREFIX None notebook_listed)) =
     [''/content'', ''/usr/local/lib/python3.7/site-packages'']"
  using site_packages_inserted_once [OF stub_run [of None]]
    site_packages_inserted_once [OF stub_run_listed [of None]]
    stub_run [of None] stub_run_listed [of None]
  by (simp add: site_packages_of_notebook notebook_fields notebook_listed_fields)

text \<open>
  The claim as it is written fails when the directory is already listed behind another
  entry: the run completes and index 0 still holds \<^verbatim>\<open>/content\<close>.
\<close>

theorem site_packages_not_at_front:
  "fst (install_from_url stub_host stub_url PREFIX None notebook_listed) = None \<and>
   sys_path (snd (install_from_url stub_host stub_url PREFIX None notebook_listed)) ! 0 \<noteq>
     site_packages_of PREFIX notebook_listed"
  using install_from_url_sys_path [OF stub_run_listed [of None]] stub_run_listed [of None]
  by (simp add: site_packages_of_notebook notebook_listed_fields prod_eq_iff)

section \<open>A failed download\<close>

lemma str_join_snoc:
  "xs \<noteq> [] \<Longrightarrow> str_join sep (xs @ [c]) = str_join sep xs @ sep @ c"
  by (induction sep xs rule: str_join.induct) auto

lemma last_str_join:
  "c \<noteq> [] \<Longrightarrow> last (str_join sep (xs @ [c])) = last c"
  by (cases "xs = []") (simp_all add: str_join_snoc)

lemma str_join_snoc_nonempty:
  "c \<noteq> [] \<Longrightarrow> str_join sep (xs @ [c]) \<noteq> []"
  by (cases "xs = []") (simp_all add: str_join_snoc)

lemma path_div_plain:
  "path_div p ''conda-meta'' = p\<lparr>parts := parts p @ [''conda-meta'']\<rparr>"
  "path_div p ''pinned'' = p\<lparr>parts := parts p @ [''pinned'']\<rparr>"
  "path_div p ''.condarc'' = p\<lparr>parts := parts p @ [''.condarc'']\<rparr>"
  by (simp_all add: path_div_def Path_def)

lemma last_pinned_path: "last (pinned_path prefix) = CHR ''d''"
  using last_str_join [of "''pinned''" "''/''" "parts (Path prefix) @ [''conda-meta'']"]
    str_join_snoc_nonempty [of "''pinned''" "''/''" "parts (Path prefix) @ [''conda-meta'']"]
  by (simp add: pinned_path_def path_div_plain path_str_def)

lemma last_condarc_path: "last (condarc_path prefix) = CHR ''c''"
  using last_str_join [of "''.condarc''" "''/''" "parts (Path prefix)"]
    str_join_snoc_nonempty [of "''.condarc''" "''/''" "parts (Path prefix)"]
  by (simp add: condarc_path_def path_div_plain path_str_def)

lemma written_paths_distinct:
  "pinned_path prefix \<noteq> installer_fn" "condarc_path prefix \<noteq> installer_fn"
  "ipython_config \<noteq> installer_fn" "pinned_path prefix \<noteq> condarc_path prefix"
  "pinned_path prefix \<noteq> ipython_config" "condarc_path prefix \<noteq> ipython_config"
proof -
  have l: "last installer_fn = CHR ''h''" "last ipython_config = CHR ''y''"
    by (simp_all add: installer_fn_def ipython_config_def)
  show "pinned_path prefix \<noteq> installer_fn" "condarc_path prefix \<noteq> installer_fn"
    "pinned_path prefix \<noteq> condarc_path prefix"
    "pinned_path prefix \<noteq> ipython_config" "condarc_path prefix \<noteq> ipython_config"
    using last_pinned_path [of prefix] last_condarc_path [of prefix] l by auto
  show "ipython_config \<noteq> installer_fn"
    by (simp add: installer_fn_def ipython_config_def)
qed

lemma real_path_distinct:
  "exe @ ''.real'' \<noteq> installer_fn" "exe @ ''.real'' \<noteq> exe"
proof -
  show "exe @ ''.real'' \<noteq> installer_fn"
  proof
    assume "exe @ ''.real'' = installer_fn"
    then have "last (exe @ ''.real'') = last installer_fn" by simp
    then show False by (simp add: installer_fn_def)
  qed
  show "exe @ ''.real'' \<noteq> exe" by simp
qed

lemma fetch_installer_raises:
  assumes "urlopen h url = Inl e \<or> urlopen h url = Inr (Response body (Some e))"
  shows "fst (fetch_installer h url w) = Some e"
  using assms by (auto simp: fetch_installer_def Let_def)

lemma fetch_installer_refused:
  assumes "urlopen h url = Inl e"
  shows "files (snd (fetch_installer h url w)) = files w"
  using assms by (simp add: fetch_installer_def py_print_def Let_def)

lemma install_from_url_fetch_failed:
  assumes "fst (fetch_installer h url w) = Some e"
  shows "install_from_url h url prefix env w = (Some e, snd (fetch_installer h url w))"
  using assms by (cases "fetch_installer h url w") (simp add: install_from_url_def)

text \<open>
  C9. When the download fails, because \<^verbatim>\<open>urlopen\<close> raises or because reading the response
  raises, \<^verbatim>\<open>install_from_url\<close> ends with that same exception. No process has been spawned,
  the pin file, the run-control file, the start-up script and every file other than the
  artifact are as before (every file when \<^verbatim>\<open>urlopen\<close> itself raised), and so are
  \<^verbatim>\<open>sys.path\<close>, the dictionaries, the executable path and the kernel.
\<close>

theorem download_failure_aborts:
  assumes "urlopen h url = Inl e \<or> urlopen h url = Inr (Response body (Some e))"
  shows "fst (install_from_url h url prefix env w) = Some e \<and>
     spawned (snd (install_from_url h url prefix env w)) = spawned w \<and>
     sys_path (snd (install_from_url h url prefix env w)) = sys_path w \<and>
     sys_executable (snd (install_from_url h url prefix env w)) = sys_executable w \<and>
     heap (snd (install_from_url h url prefix env w)) = heap w \<and>
     shutdown_requests (snd (install_from_url h url prefix env w)) = shutdown_requests w \<and>
     files (snd (install_from_url h url prefix env w)) (pinned_path prefix) = files w (pinned_path prefix) \<and>
     files (snd (install_from_url h url prefix env w)) (condarc_path prefix) = files w (condarc_path prefix) \<and>
     files (snd (install_from_url h url prefix env w)) ipython_config = files w ipython_config \<and>
     files (snd (install_from_url h url prefix env w)) (sys_executable w @ ''.real'') =
       files w (sys_executable w @ ''.real'') \<and>
     (\<forall>p. p \<noteq> installer_fn \<longrightarrow> files (snd (install_from_url h url prefix env w)) p = files w p) \<and>
     (urlopen h url = Inl e \<longrightarrow> files (snd (install_from_url h url prefix env w)) = files w)"
proof -
  have r: "fst (fetch_installer h url w) = Some e"
    using assms by (rule fetch_installer_raises)
  then have i: "install_from_url h url prefix env w = (Some e, snd (fetch_installer h url w))"
    by (rule install_from_url_fetch_failed)
  have f: "fetch_installer h url w = (Some e, snd (fetch_installer h url w))"
    using r by (simp add: prod_eq_iff)
  show ?thesis
    using fetch_installer_frame [OF f] fetch_installer_files [OF f] i
      written_paths_distinct real_path_distinct [of "sys_executable w"]
    by (simp add: fetch_installer_refused)
qed

theorem download_failure_aborts_witness:
  "urlopen stub_host ''https://example.org/other.sh'' = Inl (FetchError ''HTTP Error 404'') \<and>
   install_from_url stub_host ''https://example.org/other.sh'' PREFIX None notebook =
     (Some (FetchError ''HTTP Error 404''),
      notebook\<lparr>stdout := [[CHR 0xE2, CHR 0x8F, CHR 0xAC] @ '' Downloading https://example.org/other.sh...'']\<rparr>) \<and>
   urlopen broken_host stub_url = Inr (Response ''tou'' (Some (FetchError ''IncompleteRead''))) \<and>
   fst (install_from_url broken_host stub_url PREFIX None notebook) = Some (FetchError ''IncompleteRead'') \<and>
   spawned (snd (install_from_url broken_host stub_url PREFIX None notebook)) = [] \<and>
   sys_path (snd (install_from_url broken_host stub_url PREFIX None notebook)) =
     [''/content'', ''/usr/lib/python3.7''] \<and>
   files (snd (install_from_url broken_host stub_url PREFIX None notebook)) ''/usr/bin/python3'' =
     Some \<lparr>content = ''ELF'', executable = True\<rparr>"
proof -
  have a: "urlopen stub_host ''https://example.org/other.sh'' = Inl (FetchError ''HTTP Error 404'')"
    by (simp add: stub_host_def stub_url_def)
  have b: "urlopen broken_host stub_url = Inr (Response ''tou'' (Some (FetchError ''IncompleteRead'')))"
    by (simp add: broken_host_def)
  have c: "install_from_url stub_host ''https://example.org/other.sh'' PREFIX None notebook =
     (Some (FetchError ''HTTP Error 404''),
      notebook\<lparr>stdout := [[CHR 0xE2, CHR 0x8F, CHR 0xAC] @ '' Downloading https://example.org/other.sh...'']\<rparr>)"
    using a by (simp add: install_from_url_def fetch_installer_def py_print_def notebook_def)
  have d: "fst (install_from_url broken_host stub_url PREFIX None notebook) =
       Some (FetchError ''IncompleteRead'')"
    "spawned (snd (install_from_url broken_host stub_url PREFIX None notebook)) = spawned notebook"
    "sys_path (snd (install_from_url broken_host stub_url PREFIX None notebook)) = sys_path notebook"
    "\<forall>p. p \<noteq> installer_fn \<longrightarrow>
       files (snd (install_from_url broken_host stub_url PREFIX None notebook)) p = files notebook p"
    using download_failure_aborts [of broken_host stub_url "FetchError ''IncompleteRead''" "''tou''"
        PREFIX None notebook, OF disjI2 [OF b]]
    by simp_all
  have "files (snd (install_from_url broken_host stub_url PREFIX None notebook)) ''/usr/bin/python3'' =
      files notebook ''/usr/bin/python3''"
    using d(4) by (simp add: installer_fn_def)
  moreover have "spawned notebook = []" by (simp add: notebook_def)
  ultimately show ?thesis
    using download_failure_aborts [of stub_host "''https://example.org/other.sh''"
        "FetchError ''HTTP Error 404''" "[]" PREFIX None notebook, OF disjI1 [OF a]]
      a b c d
    by (simp add: notebook_fields)
qed

section \<open>The installer's exit status\<close>












section \<open>The caller's dictionary\<close>

lemma map_of_dict_setitem: "map_of (dict_setitem d k v) = (map_of d)(k \<mapsto> v)"
  by (induction d k v rule: dict_setitem.induct) auto

lemma keys_dict_setitem:
  "map fst (dict_setitem d k v) = (if k \<in> fst ` set d then map fst d else map fst d @ [k])"
  by (induction d k v rule: dict_setitem.induct) auto

lemma others_dict_setitem:
  "filter (\<lambda>kv. fst kv \<noteq> k) (dict_setitem d k v) = filter (\<lambda>kv. fst kv \<noteq> k) d"
  by (induction d k v rule: dict_setitem.induct) auto

lemma distinct_dict_setitem:
  "distinct (map fst d) \<Longrightarrow> distinct (map fst (dict_setitem d k v))"
  by (simp add: keys_dict_setitem)

lemma install_from_url_heap:
  assumes "install_from_url h url prefix env w = (None, w')"
  shows "heap w' =
     (case env of
        None \<Rightarrow> (heap w)(heap_next w := [(''LD_LIBRARY_PATH'', ld_library_path (path_str (Path prefix)))])
      | Some a \<Rightarrow>
          if heap w a = []
          then (heap w)(heap_next w := [(''LD_LIBRARY_PATH'', ld_library_path (path_str (Path prefix)))])
          else (heap w)(a := dict_setitem (heap w a) ''LD_LIBRARY_PATH'' (ld_library_path (path_str (Path prefix)))))"
proof -
  from assms obtain w1 w2 w3 where
    f: "fetch_installer h url w = (None, w1)" and
    r: "run_installer h prefix w1 = (None, w2)" and
    p: "patch_environment h prefix env (adjust_configuration prefix w2) = (None, w3)" and
    k: "w' = restart_kernel w3"
    by (rule install_from_url_success)
  have "heap (adjust_configuration prefix w2) = heap w"
    "heap_next (adjust_configuration prefix w2) = heap_next w"
    using fetch_installer_frame [OF f] run_installer_frame [OF r]
    by (simp_all add: adjust_configuration_frame)
  then show ?thesis
    using patch_environment_heap [OF p] k
    by (simp add: restart_kernel_frame split: option.splits)
qed

text \<open>
  C10 (as amended). When the caller passes a dictionary that is not empty, a run that
  completes has changed that very object: its key \<^verbatim>\<open>LD_LIBRARY_PATH\<close> is bound to the
  quoted value computed from the prefix, in its old place if the key was there and at the
  end otherwise; every other pair is as before and in the same order, and no other
  dictionary has changed. When the caller passes a dictionary that is empty,
  \<^verbatim>\<open>env or {}\<close> takes a new object: the caller's dictionary is still empty after the
  run, the binding is in the new object, and no other dictionary has changed. (The new
  object is allocated at \<open>heap_next\<close>; the dictionary of the caller exists already, so
  its address is another one.)
\<close>

theorem caller_env_mutated_in_place:
  assumes "install_from_url h url prefix (Some a) w = (None, w')"
  shows "(heap w a \<noteq> [] \<longrightarrow>
       heap w' a = dict_setitem (heap w a) ''LD_LIBRARY_PATH'' (ld_library_path (path_str (Path prefix))) \<and>
       map_of (heap w' a) ''LD_LIBRARY_PATH'' = Some (DQ @ path_str (Path prefix) @ ''/lib:$LD_LIBRARY_PATH'' @ DQ) \<and>
       (\<forall>k. k \<noteq> ''LD_LIBRARY_PATH'' \<longrightarrow> map_of (heap w' a) k = map_of (heap w a) k) \<and>
       filter (\<lambda>kv. fst kv \<noteq> ''LD_LIBRARY_PATH'') (heap w' a) =
         filter (\<lambda>kv. fst kv \<noteq> ''LD_LIBRARY_PATH'') (heap w a) \<and>
       map fst (heap w' a) =
         (if ''LD_LIBRARY_PATH'' \<in> fst ` set (heap w a) then map fst (heap w a)
          else map fst (heap w a) @ [''LD_LIBRARY_PATH'']) \<and>
       (\<forall>b. b \<noteq> a \<longrightarrow> heap w' b = heap w b)) \<and>
     (heap w a = [] \<longrightarrow> a \<noteq> heap_next w \<longrightarrow>
       heap w' a = [] \<and>
       heap w' (heap_next w) =
         [(''LD_LIBRARY_PATH'', DQ @ path_str (Path prefix) @ ''/lib:$LD_LIBRARY_PATH'' @ DQ)] \<and>
       (\<forall>b. b \<noteq> heap_next w \<longrightarrow> heap w' b = heap w b))"
proof (cases "heap w a = []")
  case True
  have "heap w' = (heap w)(heap_next w :=
      [(''LD_LIBRARY_PATH'', ld_library_path (path_str (Path prefix)))])"
    using install_from_url_heap [OF assms] True by simp
  then show ?thesis
    using True by (simp add: ld_library_path_def)
next
  case False
  have "heap w' = (heap w)(a := dict_setitem (heap w a) ''LD_LIBRARY_PATH''
      (ld_library_path (path_str (Path prefix))))"
    using install_from_url_heap [OF assms] False by simp
  then show ?thesis
    using False
    by (simp add: map_of_dict_setitem keys_dict_setitem others_dict_setitem ld_library_path_def)
qed

theorem caller_env_mutated_in_place_witness:
  "install_from_url stub_host stub_url PREFIX (Some 0) notebook_env =
     (None, snd (install_from_url stub_host stub_url PREFIX (Some 0) notebook_env)) \<and>
   heap notebook_env 0 = [(''LD_LIBRARY_PATH'', ''/opt/lib''), (''FOO'', ''bar'')] \<and>
   heap (snd (install_from_url stub_host stub_url PREFIX (Some 0) notebook_env)) 0 =
     [(''LD_LIBRARY_PATH'', DQ @ ''/usr/local/lib:$LD_LIBRARY_PATH'' @ DQ), (''FOO'', ''bar'')] \<and>
   install_from_url stub_host stub_url PREFIX (Some 0) notebook =
     (None, snd (install_from_url stub_host stub_url PREFIX (Some 0) notebook)) \<and>
   heap notebook 0 = [] \<and>
   0 \<noteq> heap_next notebook \<and>
   heap (snd (install_from_url stub_host stub_url PREFIX (Some 0) notebook)) 0 = [] \<and>
   heap (snd (install_from_url stub_host stub_url PREFIX (Some 0) notebook)) (heap_next notebook) =
     [(''LD_LIBRARY_PATH'', DQ @ ''/usr/local/lib:$LD_LIBRARY_PATH'' @ DQ)]"
  using caller_env_mutated_in_place [OF stub_run_env [of "Some 0"]]
    caller_env_mutated_in_place [OF stub_run [of "Some 0"]]
    stub_run_env [of "Some 0"] stub_run [of "Some 0"]
  by (simp add: notebook_env_fields notebook_fields path_str_PREFIX ld_library_path_def)

text \<open>
  The claim as it is written fails for a dictionary that is empty: \<^verbatim>\<open>env or {}\<close> takes
  a new object, and the caller's dictionary at address 0 is still empty after the run,
  while the binding went to the new object at address 1.
\<close>

theorem empty_caller_env_untouched:
  "fst (install_from_url stub_host stub_url PREFIX (Some 0) notebook) = None \<and>
   heap notebook 0 = [] \<and>
   heap (snd (install_from_url stub_host stub_url PREFIX (Some 0) notebook)) 0 = [] \<and>
   heap (snd (install_from_url stub_host stub_url PREFIX (Some 0) notebook)) 1 =
     [(''LD_LIBRARY_PATH'', DQ @ ''/usr/local/lib:$LD_LIBRARY_PATH'' @ DQ)]"
  using install_from_url_heap [OF stub_run [of "Some 0"]] stub_run [of "Some 0"]
  by (simp add: notebook_fields path_str_PREFIX ld_library_path_def prod_eq_iff)

section \<open>The check after the restart\<close>

lemma check_conda_missing:
  assumes "find_executable h ''conda'' (environ w) (files w) = None \<or>
           find_executable h ''conda'' (environ w) (files w) = Some []"
  shows "check h prefix w = (Some (AssertionError (boom @ '' Conda not found!'') None), w)"
  using assms by (auto simp: check_def)

lemma check_search_path_unpatched:
  assumes "find_executable h ''conda'' (environ w) (files w) = Some p" "p \<noteq> []"
    and "site_packages prefix (fst (version_info w)) (snd (version_info w)) \<notin> set (sys_path w)"
  shows "check h prefix w =
     (Some (AssertionError (boom @ '' PYTHONPATH was not patched! Value: '')
        (Some (ListVal (sys_path w)))), w)"
  using assms by (simp add: check_def case_prod_beta Let_def)

lemma check_library_path_unpatched:
  assumes "find_executable h ''conda'' (environ w) (files w) = Some p" "p \<noteq> []"
    and "site_packages prefix (fst (version_info w)) (snd (version_info w)) \<in> set (sys_path w)"
    and "environ w ''LD_LIBRARY_PATH'' = Some v"
    and "\<not> str_contains (prefix @ ''/lib'') v"
  shows "check h prefix w =
     (Some (AssertionError (boom @ '' LD_LIBRARY_PATH was not patched! Value: '')
        (Some (StrVal v))), w)"
  using assms by (simp add: check_def case_prod_beta Let_def)

lemma check_passes:
  assumes "find_executable h ''conda'' (environ w) (files w) = Some p" "p \<noteq> []"
    and "site_packages prefix (fst (version_info w)) (snd (version_info w)) \<in> set (sys_path w)"
    and "environ w ''LD_LIBRARY_PATH'' = Some v"
    and "str_contains (prefix @ ''/lib'') v"
  shows "fst (check h prefix w) = None"
  using assms by (simp add: check_def case_prod_beta Let_def)

lemma check_library_path_unset:
  assumes "find_executable h ''conda'' (environ w) (files w) = Some p" "p \<noteq> []"
    and "site_packages prefix (fst (version_info w)) (snd (version_info w)) \<in> set (sys_path w)"
    and "environ w ''LD_LIBRARY_PATH'' = None"
  shows "check h prefix w = (Some (KeyError ''LD_LIBRARY_PATH''), w)"
  using assms by (simp add: check_def case_prod_beta Let_def)

text \<open>
  C8. The claim holds for the first two conditions, and for the third one as long as the
  variable \<^verbatim>\<open>LD_LIBRARY_PATH\<close> is set (the four lemmas above). It fails when the third
  condition is removed by unsetting the variable: \<^verbatim>\<open>conda\<close> is found and the search path
  is patched, and \<^verbatim>\<open>check\<close> ends with the \<^verbatim>\<open>KeyError\<close> of the lookup
  \<^verbatim>\<open>os.environ["LD_LIBRARY_PATH"]\<close>, not with the assertion and its message.
\<close>

theorem check_unset_library_path_key_error:
  "find_executable stub_host ''conda'' (environ restarted) (files restarted) =
     Some ''/usr/local/bin/conda'' \<and>
   site_packages PREFIX (fst (version_info restarted)) (snd (version_info restarted)) \<in>
     set (sys_path restarted) \<and>
   environ restarted ''LD_LIBRARY_PATH'' = None \<and>
   check stub_host PREFIX restarted = (Some (KeyError ''LD_LIBRARY_PATH''), restarted)"
proof -
  have a: "find_executable stub_host ''conda'' (environ restarted) (files restarted) =
     Some ''/usr/local/bin/conda''"
    by (simp add: stub_host_def restarted_def)
  have b: "site_packages PREFIX (fst (version_info restarted)) (snd (version_info restarted)) \<in>
     set (sys_path restarted)"
    by (simp add: restarted_def notebook_def PREFIX_def site_packages_usr_local)
  have c: "environ restarted ''LD_LIBRARY_PATH'' = None"
    by (simp add: restarted_def)
  have "check stub_host PREFIX restarted = (Some (KeyError ''LD_LIBRARY_PATH''), restarted)"
    using a _ b c by (rule check_library_path_unset) simp
  with a b c show ?thesis by simp
qed

section \<open>The files after a run\<close>


lemma config_appended_pinned:
  "config_appended prefix w fs (pinned_path prefix) =
     Some (case fs (pinned_path prefix) of
             None \<Rightarrow> \<lparr>content = pin_text w, executable = False\<rparr>
           | Some g \<Rightarrow> g\<lparr>content := content g @ pin_text w\<rparr>)"
  using written_paths_distinct(4,5) [of prefix]
  by (simp add: config_appended_def append_file_def)

lemma adjust_configuration_appended:
  "files (adjust_configuration prefix w) = config_appended prefix w (files w)"
  by (simp add: adjust_configuration_files config_appended_def pin_text_def)

lemma patch_environment_shim:
  assumes "patch_environment h prefix env w = (None, w3)" and "posix_chmod h"
  shows "\<exists>f. files w (sys_executable w) = Some f \<and>
     files w3 = ((files w)(sys_executable w := None))
       (sys_executable w @ ''.real'' \<mapsto> f, sys_executable w \<mapsto> shim_file prefix env w)"
proof -
  from patch_environment_files [OF assms(1)] obtain f where
    f: "files w (sys_executable w) = Some f" and
    e: "files w3 = fst (run_process h [''chmod'', ''+x'', sys_executable w]
       (((files w)(sys_executable w := None))(sys_executable w @ ''.real'' \<mapsto> f,
          sys_executable w \<mapsto> \<lparr>content = shim_script (path_str (Path prefix))
             (dict_setitem (caller_env env w) ''LD_LIBRARY_PATH'' (ld_library_path (path_str (Path prefix)))),
             executable = False\<rparr>)))"
    by blast
  have c: "run_process h [''chmod'', ''+x'', sys_executable w] fs = chmod_x fs (sys_executable w)" for fs
    using assms(2) by (simp add: posix_chmod_def)
  show ?thesis
    using f by (simp add: e c chmod_x_def shim_file_def)
qed

lemma install_from_url_frame:
  assumes "install_from_url h url prefix env w = (None, w')"
  shows "sys_executable w' = sys_executable w" "version_info w' = version_info w"
    "environ w' = environ w"
proof -
  from assms obtain w1 w2 w3 where
    f: "fetch_installer h url w = (None, w1)" and
    r: "run_installer h prefix w1 = (None, w2)" and
    p: "patch_environment h prefix env (adjust_configuration prefix w2) = (None, w3)" and
    k: "w' = restart_kernel w3"
    by (rule install_from_url_success)
  show "sys_executable w' = sys_executable w" "version_info w' = version_info w"
    "environ w' = environ w"
    using fetch_installer_frame [OF f] run_installer_frame [OF r] patch_environment_frame [OF p] k
    by (simp_all add: adjust_configuration_frame restart_kernel_frame)
qed

lemma install_from_url_files:
  assumes "install_from_url h url prefix env w = (None, w')" and "posix_chmod h"
  shows "\<exists>fs f.
    (\<forall>q. q \<noteq> installer_fn \<longrightarrow> process_keeps h [''bash'', installer_fn, ''-bfp'', prefix] q \<longrightarrow>
       fs q = files w q) \<and>
    config_appended prefix w fs (sys_executable w) = Some f \<and>
    files w' = ((config_appended prefix w fs)(sys_executable w := None))
       (sys_executable w @ ''.real'' \<mapsto> f, sys_executable w \<mapsto> shim_file prefix env w)"
proof -
  from assms(1) obtain w1 w2 w3 where
    f: "fetch_installer h url w = (None, w1)" and
    r: "run_installer h prefix w1 = (None, w2)" and
    p: "patch_environment h prefix env (adjust_configuration prefix w2) = (None, w3)" and
    k: "w' = restart_kernel w3"
    by (rule install_from_url_success)
  have fr: "sys_executable w2 = sys_executable w" "version_info w2 = version_info w"
    "environ w2 = environ w" "heap w2 = heap w"
    using fetch_installer_frame [OF f] run_installer_frame [OF r] by simp_all
  have a: "files (adjust_configuration prefix w2) = config_appended prefix w (files w2)"
    using fr by (simp add: adjust_configuration_appended config_appended_def pin_text_def)
  have s: "shim_file prefix env (adjust_configuration prefix w2) = shim_file prefix env w"
    using fr by (cases env) (simp_all add: shim_file_def caller_env_def adjust_configuration_frame)
  have 1: "files w2 q = files w q"
    if "q \<noteq> installer_fn" "process_keeps h [''bash'', installer_fn, ''-bfp'', prefix] q" for q
    using run_installer_files [OF r] fetch_installer_files [OF f that(1)]
      process_keepsD [OF that(2), of "files w1"] that(1)
    by simp
  from patch_environment_shim [OF p assms(2)] obtain g where
    "config_appended prefix w (files w2) (sys_executable w) = Some g"
    "files w' = ((config_appended prefix w (files w2))(sys_executable w := None))
       (sys_executable w @ ''.real'' \<mapsto> g, sys_executable w \<mapsto> shim_file prefix env w)"
    using a s fr k by (auto simp: adjust_configuration_frame restart_kernel_frame)
  with 1 show ?thesis by blast
qed

lemma install_from_url_shim:
  assumes "install_from_url h url prefix env w = (None, w')" and "posix_chmod h"
  shows "files w' (sys_executable w) = Some (shim_file prefix env w)"
  using install_from_url_files [OF assms] by auto


lemma install_from_url_pinned:
  assumes "install_from_url h url prefix env w = (None, w')" and "posix_chmod h"
    and "process_keeps h [''bash'', installer_fn, ''-bfp'', prefix] (pinned_path prefix)"
    and "pinned_path prefix \<noteq> sys_executable w"
    and "pinned_path prefix \<noteq> sys_executable w @ ''.real''"
  shows "files w' (pinned_path prefix) =
     Some (case files w (pinned_path prefix) of
             None \<Rightarrow> \<lparr>content = pin_text w, executable = False\<rparr>
           | Some g \<Rightarrow> g\<lparr>content := content g @ pin_text w\<rparr>)"
proof -
  from assms(1,2) obtain fs f where
    1: "\<And>q. q \<noteq> installer_fn \<Longrightarrow> process_keeps h [''bash'', installer_fn, ''-bfp'', prefix] q \<Longrightarrow>
       fs q = files w q" and
    3: "files w' = ((config_appended prefix w fs)(sys_executable w := None))
       (sys_executable w @ ''.real'' \<mapsto> f, sys_executable w \<mapsto> shim_file prefix env w)"
    using install_from_url_files [of h url prefix env w w'] by blast
  have "fs (pinned_path prefix) = files w (pinned_path prefix)"
    using 1 [OF written_paths_distinct(1) assms(3)] .
  then show ?thesis
    using 3 assms(4,5) by (simp add: config_appended_pinned)
qed

section \<open>The executable path\<close>

lemma stub_paths:
  "pinned_path PREFIX = ''/usr/local/conda-meta/pinned''"
  "condarc_path PREFIX = ''/usr/local/.condarc''"
  by (simp_all add: pinned_path_def condarc_path_def PREFIX_def Path_def path_div_def path_str_def)






section \<open>A second run\<close>




lemma stub_run_once:
  "install_from_url stub_host stub_url PREFIX None notebook = (None, notebook_once)"
  using stub_run [of None] by (simp add: notebook_once_def)

lemma notebook_once_executable:
  "sys_executable notebook_once = ''/usr/bin/python3''"
  "files notebook_once ''/usr/bin/python3'' = Some (shim_file PREFIX None notebook)"
  using install_from_url_frame(1) [OF stub_run_once]
    install_from_url_shim [OF stub_run_once stub_host_chmod]
  by (simp_all add: notebook_fields)

lemma stub_run_twice:
  "install_from_url stub_host stub_url PREFIX None notebook_once = (None, notebook_twice)"
  unfolding notebook_twice_def
  by (rule stub_returns) (simp_all add: notebook_once_executable installer_fn_def PREFIX_def)


section \<open>The variables of the shim\<close>

lemma starts_with_append: "starts_with a (a @ s)"
  by (induction a) auto

lemma str_contains_here: "str_contains a (a @ s)"
proof (cases "a @ s")
  case Nil
  then show ?thesis by simp
next
  case (Cons x xs)
  have "starts_with a (x # xs)"
    using starts_with_append [of a s] Cons by simp
  then show ?thesis
    using Cons by simp
qed

lemma str_contains_mid: "str_contains a (pre @ a @ post)"
  by (induction pre) (simp_all add: str_contains_here)

lemma str_join_mem:
  "x \<in> set xs \<Longrightarrow> \<exists>pre post. str_join sep xs = pre @ x @ post"
proof (induction sep xs rule: str_join.induct)
  case (1 sep)
  then show ?case by simp
next
  case (2 sep y)
  then have "str_join sep [y] = [] @ x @ []" by simp
  then show ?case by blast
next
  case (3 sep y z zs)
  show ?case
  proof (cases "x = y")
    case True
    then have "str_join sep (y # z # zs) = [] @ x @ (sep @ str_join sep (z # zs))" by simp
    then show ?thesis by blast
  next
    case False
    with 3 obtain pre post where "str_join sep (z # zs) = pre @ x @ post" by auto
    then have "str_join sep (y # z # zs) = (y @ sep @ pre) @ x @ post" by simp
    then show ?thesis by blast
  qed
qed

lemma shim_script_contains:
  assumes "(k, v) \<in> set d"
  shows "str_contains (k @ ''='' @ v) (shim_script p d)"
    and "v = a @ b \<Longrightarrow> str_contains (k @ ''='' @ a) (shim_script p d)"
proof -
  have "k @ ''='' @ v \<in> set (map (\<lambda>(k, v). k @ ''='' @ v) d)"
    using assms by force
  then obtain pre post where
    j: "envstr d = pre @ (k @ ''='' @ v) @ post"
    unfolding envstr_def using str_join_mem by blast
  have 1: "shim_script p d =
      (''#!/bin/bash'' @ NL @ ''exec env '' @ pre) @ (k @ ''='' @ v) @
      (post @ '' '' @ p @ ''/bin/python -x $@'' @ NL)"
    by (simp add: shim_script_def j)
  show "str_contains (k @ ''='' @ v) (shim_script p d)"
    unfolding 1 by (rule str_contains_mid)
  assume "v = a @ b"
  then have "shim_script p d =
      (''#!/bin/bash'' @ NL @ ''exec env '' @ pre) @ (k @ ''='' @ a) @
      (b @ post @ '' '' @ p @ ''/bin/python -x $@'' @ NL)"
    by (simp add: 1)
  then show "str_contains (k @ ''='' @ a) (shim_script p d)"
    using str_contains_mid [of "k @ ''='' @ a" "''#!/bin/bash'' @ NL @ ''exec env '' @ pre"
        "b @ post @ '' '' @ p @ ''/bin/python -x $@'' @ NL"]
    by simp
qed

text \<open>
  C1. Whatever mapping the caller passes (its keys distinct, as in any dictionary; \<open>None\<close>
  and the empty mapping included), the second line of the shim written by a run that
  completes is built from the mapping \<open>d\<close> that results from binding
  \<^verbatim>\<open>LD_LIBRARY_PATH\<close> in the caller's pairs: it is \<^verbatim>\<open>exec env\<close>, the pairs of \<open>d\<close> as
  \<^verbatim>\<open>K=V\<close> joined by blanks, and \<^verbatim>\<open><prefix>/bin/python -x $@\<close>. In \<open>d\<close> the key
  \<^verbatim>\<open>LD_LIBRARY_PATH\<close> has one value, the quoted \<^verbatim>\<open>"<prefix>/lib:$LD_LIBRARY_PATH"\<close>,
  whatever the caller gave for it; every other pair of the caller is in \<open>d\<close>, in the same
  order, and occurs in the script as \<^verbatim>\<open>K=V\<close> with no escaping; and the script contains
  the assignment \<^verbatim>\<open>LD_LIBRARY_PATH="<prefix>/lib:\<close>.
\<close>

theorem shim_environment_merge:
  assumes "install_from_url h url prefix env w = (None, w')"
    and "posix_chmod h"
    and "distinct (map fst (caller_env env w))"
    and "d = dict_setitem (caller_env env w) ''LD_LIBRARY_PATH''
               (ld_library_path (path_str (Path prefix)))"
  shows "files w' (sys_executable w) =
       Some \<lparr>content = shim_script (path_str (Path prefix)) d, executable = True\<rparr> \<and>
     shim_script (path_str (Path prefix)) d =
       ''#!/bin/bash'' @ NL @ ''exec env '' @ str_join '' '' (map (\<lambda>(k, v). k @ ''='' @ v) d) @
       '' '' @ path_str (Path prefix) @ ''/bin/python -x $@'' @ NL \<and>
     (\<forall>v. ((''LD_LIBRARY_PATH'', v) \<in> set d) =
          (v = DQ @ path_str (Path prefix) @ ''/lib:$LD_LIBRARY_PATH'' @ DQ)) \<and>
     (\<forall>(k, v) \<in> set (caller_env env w). k \<noteq> ''LD_LIBRARY_PATH'' \<longrightarrow>
          (k, v) \<in> set d \<and> str_contains (k @ ''='' @ v) (shim_script (path_str (Path prefix)) d)) \<and>
     filter (\<lambda>kv. fst kv \<noteq> ''LD_LIBRARY_PATH'') d =
       filter (\<lambda>kv. fst kv \<noteq> ''LD_LIBRARY_PATH'') (caller_env env w) \<and>
     str_contains (''LD_LIBRARY_PATH='' @ DQ @ path_str (Path prefix) @ ''/lib:'')
       (shim_script (path_str (Path prefix)) d)"
proof -
  let ?p = "path_str (Path prefix)"
  let ?val = "DQ @ ?p @ ''/lib:$LD_LIBRARY_PATH'' @ DQ"
  have d: "d = dict_setitem (caller_env env w) ''LD_LIBRARY_PATH'' ?val"
    using assms(4) by (simp add: ld_library_path_def)
  have 1: "files w' (sys_executable w) = Some \<lparr>content = shim_script ?p d, executable = True\<rparr>"
    using install_from_url_shim [OF assms(1,2)] assms(4) by (simp add: shim_file_def)
  have 2: "shim_script ?p d =
       ''#!/bin/bash'' @ NL @ ''exec env '' @ str_join '' '' (map (\<lambda>(k, v). k @ ''='' @ v) d) @
       '' '' @ ?p @ ''/bin/python -x $@'' @ NL"
    by (simp add: shim_script_def envstr_def)
  have dist: "distinct (map fst d)"
    unfolding d using assms(3) by (rule distinct_dict_setitem)
  have m: "map_of d ''LD_LIBRARY_PATH'' = Some ?val"
    by (simp add: d map_of_dict_setitem)
  then have mem: "(''LD_LIBRARY_PATH'', ?val) \<in> set d"
    by (rule map_of_SomeD)
  have 3: "((''LD_LIBRARY_PATH'', v) \<in> set d) = (v = ?val)" for v
    using map_of_is_SomeI [OF dist, of "''LD_LIBRARY_PATH''" v] m mem by auto
  have f: "filter (\<lambda>kv. fst kv \<noteq> ''LD_LIBRARY_PATH'') d =
       filter (\<lambda>kv. fst kv \<noteq> ''LD_LIBRARY_PATH'') (caller_env env w)"
    by (simp add: d others_dict_setitem)
  have 4: "(k, v) \<in> set d \<and> str_contains (k @ ''='' @ v) (shim_script ?p d)"
    if "(k, v) \<in> set (caller_env env w)" "k \<noteq> ''LD_LIBRARY_PATH''" for k v
  proof -
    have "(k, v) \<in> set (filter (\<lambda>kv. fst kv \<noteq> ''LD_LIBRARY_PATH'') (caller_env env w))"
      using that by simp
    then have "(k, v) \<in> set d"
      unfolding f [symmetric] by simp
    then show ?thesis
      using shim_script_contains(1) [of k v d ?p] by simp
  qed
  have 5: "str_contains (''LD_LIBRARY_PATH='' @ DQ @ ?p @ ''/lib:'') (shim_script ?p d)"
    using shim_script_contains(2) [OF mem, of "DQ @ ?p @ ''/lib:''" "''$LD_LIBRARY_PATH'' @ DQ" ?p]
    by simp
  show ?thesis
    using 1 2 3 4 5 f by blast
qed

theorem shim_environment_merge_witness:
  "install_from_url stub_host stub_url PREFIX (Some 0) notebook_env =
     (None, snd (install_from_url stub_host stub_url PREFIX (Some 0) notebook_env)) \<and>
   posix_chmod stub_host \<and>
   caller_env (Some 0) notebook_env = [(''LD_LIBRARY_PATH'', ''/opt/lib''), (''FOO'', ''bar'')] \<and>
   distinct (map fst (caller_env (Some 0) notebook_env)) \<and>
   dict_setitem (caller_env (Some 0) notebook_env) ''LD_LIBRARY_PATH''
       (ld_library_path (path_str (Path PREFIX))) =
     [(''LD_LIBRARY_PATH'', DQ @ ''/usr/local/lib:$LD_LIBRARY_PATH'' @ DQ), (''FOO'', ''bar'')] \<and>
   files (snd (install_from_url stub_host stub_url PREFIX (Some 0) notebook_env)) ''/usr/bin/python3'' =
     Some \<lparr>content = ''#!/bin/bash'' @ NL @ ''exec env LD_LIBRARY_PATH='' @ DQ @
              ''/usr/local/lib:$LD_LIBRARY_PATH'' @ DQ @ '' FOO=bar /usr/local/bin/python -x $@'' @ NL,
           executable = True\<rparr>"
proof -
  have c: "caller_env (Some 0) notebook_env = [(''LD_LIBRARY_PATH'', ''/opt/lib''), (''FOO'', ''bar'')]"
    by (simp add: caller_env_def notebook_env_fields)
  have t: "distinct (map fst (caller_env (Some 0) notebook_env))"
    by (simp add: c)
  have d: "[(''LD_LIBRARY_PATH'', DQ @ ''/usr/local/lib:$LD_LIBRARY_PATH'' @ DQ), (''FOO'', ''bar'')] =
     dict_setitem (caller_env (Some 0) notebook_env) ''LD_LIBRARY_PATH''
       (ld_library_path (path_str (Path PREFIX)))"
    by (simp add: c path_str_PREFIX ld_library_path_def)
  from shim_environment_merge [OF stub_run_env [of "Some 0"] stub_host_chmod t d]
  have "files (snd (install_from_url stub_host stub_url PREFIX (Some 0) notebook_env))
      (sys_executable notebook_env) =
     Some \<lparr>content = shim_script (path_str (Path PREFIX))
        [(''LD_LIBRARY_PATH'', DQ @ ''/usr/local/lib:$LD_LIBRARY_PATH'' @ DQ), (''FOO'', ''bar'')],
        executable = True\<rparr>"
    by blast
  then show ?thesis
    using stub_run_env [of "Some 0"] stub_host_chmod c t d [symmetric]
    by (simp add: notebook_env_fields path_str_PREFIX shim_script_def envstr_def)
qed

section \<open>The pin file\<close>

lemma str_split_plain: "c \<notin> set s \<Longrightarrow> str_split c s = [s]"
  by (induction s) auto

lemma str_split_append:
  "c \<notin> set a \<Longrightarrow> str_split c (a @ c # s) = a # str_split c s"
  by (induction a) auto

lemma str_split_nonempty: "str_split c s \<noteq> []"
  by (induction s) (auto split: list.splits)

lemma cuda_version_unset:
  "env ''CUDA_VERSION'' = None \<Longrightarrow> cuda_version env = ''*.*''"
  by (simp add: cuda_version_def)

lemma cuda_version_major_minor:
  assumes "env ''CUDA_VERSION'' = Some (a @ ''.'' @ b @ ''.'' @ rest)"
    and "CHR ''.'' \<notin> set a" "CHR ''.'' \<notin> set b"
  shows "cuda_version env = a @ ''.'' @ b"
proof -
  have "str_split (CHR ''.'') (a @ CHR ''.'' # b @ CHR ''.'' # rest) =
      a # b # str_split (CHR ''.'') rest"
    using assms(2,3) by (simp add: str_split_append)
  then show ?thesis
    using assms(1) by (simp add: cuda_version_def)
qed

lemma cuda_version_two_components:
  assumes "env ''CUDA_VERSION'' = Some (a @ ''.'' @ b)"
    and "CHR ''.'' \<notin> set a" "CHR ''.'' \<notin> set b"
  shows "cuda_version env = a @ ''.'' @ b"
proof -
  have "str_split (CHR ''.'') (a @ CHR ''.'' # b) = [a, b]"
    using assms(2,3) by (simp add: str_split_append str_split_plain)
  then show ?thesis
    using assms(1) by (simp add: cuda_version_def)
qed

text \<open>
  C7. The text that a run appends to the pin file is the three lines
  \<^verbatim>\<open>python M.m.*\<close>, \<^verbatim>\<open>python_abi M.m.* *cpMm*\<close> and \<^verbatim>\<open>cudatoolkit V.*\<close>, with \<open>M\<close> and
  \<open>m\<close> the major and minor version of the running interpreter and \<open>V\<close> the first two
  components of \<^verbatim>\<open>CUDA_VERSION\<close>: \<^verbatim>\<open>A.B\<close> when the variable is \<^verbatim>\<open>A.B.C...\<close>, and
  \<^verbatim>\<open>*.*\<close> when it is not set, so that the line is \<^verbatim>\<open>cudatoolkit *.*.*\<close>.
  (Stated for a run that completes, on a host where \<^verbatim>\<open>chmod +x\<close> sets the executable
  bit, with an installer that leaves the pin file alone and a pin file that is neither
  the executable nor its \<^verbatim>\<open>.real\<close> sibling.)
\<close>

theorem pin_lines_written:
  assumes "install_from_url h url prefix env w = (None, w')"
    and "posix_chmod h"
    and "process_keeps h [''bash'', installer_fn, ''-bfp'', prefix] (pinned_path prefix)"
    and "pinned_path prefix \<noteq> sys_executable w"
    and "pinned_path prefix \<noteq> sys_executable w @ ''.real''"
    and "version_info w = (pymaj, pymin)"
  shows "(\<exists>f. files w' (pinned_path prefix) = Some f \<and>
        content f =
          (case files w (pinned_path prefix) of None \<Rightarrow> [] | Some g \<Rightarrow> content g) @
          ''python '' @ str_of_nat pymaj @ ''.'' @ str_of_nat pymin @ ''.*'' @ NL @
          ''python_abi '' @ str_of_nat pymaj @ ''.'' @ str_of_nat pymin @ ''.* *cp'' @
             str_of_nat pymaj @ str_of_nat pymin @ ''*'' @ NL @
          ''cudatoolkit '' @ cuda_version (environ w) @ ''.*'' @ NL) \<and>
     (environ w ''CUDA_VERSION'' = None \<longrightarrow> cuda_version (environ w) = ''*.*'') \<and>
     (\<forall>a b rest. environ w ''CUDA_VERSION'' = Some (a @ ''.'' @ b @ ''.'' @ rest) \<longrightarrow>
        CHR ''.'' \<notin> set a \<longrightarrow> CHR ''.'' \<notin> set b \<longrightarrow> cuda_version (environ w) = a @ ''.'' @ b)"
proof -
  have "files w' (pinned_path prefix) =
     Some (case files w (pinned_path prefix) of
             None \<Rightarrow> \<lparr>content = pin_text w, executable = False\<rparr>
           | Some g \<Rightarrow> g\<lparr>content := content g @ pin_text w\<rparr>)"
    using assms(1-5) by (rule install_from_url_pinned)
  then have "\<exists>f. files w' (pinned_path prefix) = Some f \<and>
        content f =
          (case files w (pinned_path prefix) of None \<Rightarrow> [] | Some g \<Rightarrow> content g) @ pin_text w"
    by (simp split: option.splits)
  moreover have "pin_text w =
          ''python '' @ str_of_nat pymaj @ ''.'' @ str_of_nat pymin @ ''.*'' @ NL @
          ''python_abi '' @ str_of_nat pymaj @ ''.'' @ str_of_nat pymin @ ''.* *cp'' @
             str_of_nat pymaj @ str_of_nat pymin @ ''*'' @ NL @
          ''cudatoolkit '' @ cuda_version (environ w) @ ''.*'' @ NL"
    using assms(6) by (simp add: pin_text_def pin_lines_def)
  ultimately show ?thesis
    using cuda_version_unset [of "environ w"] cuda_version_major_minor [of "environ w"]
    by simp
qed

lemma stub_pinned_kept:
  "process_keeps stub_host [''bash'', installer_fn, ''-bfp'', PREFIX] (pinned_path PREFIX)"
  by (rule stub_host_keeps) (simp only: stub_paths, simp add: PREFIX_def)

lemma notebook_cpu_fields:
  "sys_executable notebook_cpu = ''/usr/bin/python3''"
  "version_info notebook_cpu = (3, 7)"
  "files notebook_cpu = files notebook"
  "environ notebook_cpu ''CUDA_VERSION'' = None"
  by (simp_all add: notebook_cpu_def notebook_def)

lemma stub_run_cpu:
  "install_from_url stub_host stub_url PREFIX env notebook_cpu =
     (None, snd (install_from_url stub_host stub_url PREFIX env notebook_cpu))"
  by (rule stub_returns)
     (simp_all add: notebook_cpu_fields notebook_fields installer_fn_def PREFIX_def)

lemma notebook_no_pin_file: "files notebook ''/usr/local/conda-meta/pinned'' = None"
  by (simp add: notebook_def)

theorem pin_lines_written_witness:
  "install_from_url stub_host stub_url PREFIX None notebook = (None, notebook_once) \<and>
   posix_chmod stub_host \<and>
   process_keeps stub_host [''bash'', installer_fn, ''-bfp'', PREFIX] (pinned_path PREFIX) \<and>
   pinned_path PREFIX = ''/usr/local/conda-meta/pinned'' \<and>
   sys_executable notebook = ''/usr/bin/python3'' \<and>
   version_info notebook = (3, 7) \<and>
   environ notebook ''CUDA_VERSION'' = Some ''11.2.152'' \<and>
   map_option content (files notebook_once ''/usr/local/conda-meta/pinned'') =
     Some (''python 3.7.*'' @ NL @ ''python_abi 3.7.* *cp37*'' @ NL @ ''cudatoolkit 11.2.*'' @ NL) \<and>
   environ notebook_cpu ''CUDA_VERSION'' = None \<and>
   map_option content
     (files (snd (install_from_url stub_host stub_url PREFIX None notebook_cpu))
        ''/usr/local/conda-meta/pinned'') =
     Some (''python 3.7.*'' @ NL @ ''python_abi 3.7.* *cp37*'' @ NL @ ''cudatoolkit *.*.*'' @ NL)"
proof -
  have n: "pinned_path PREFIX \<noteq> sys_executable notebook"
    "pinned_path PREFIX \<noteq> sys_executable notebook @ ''.real''"
    "pinned_path PREFIX \<noteq> sys_executable notebook_cpu"
    "pinned_path PREFIX \<noteq> sys_executable notebook_cpu @ ''.real''"
    by (simp_all add: stub_paths notebook_fields notebook_cpu_fields)
  note a = pin_lines_written [OF stub_run_once stub_host_chmod stub_pinned_kept n(1,2)
      notebook_fields(3)]
  note b = pin_lines_written [OF stub_run_cpu [of None] stub_host_chmod stub_pinned_kept n(3,4)
      notebook_cpu_fields(2)]
  from a have "environ notebook ''CUDA_VERSION'' = Some (''11'' @ ''.'' @ ''2'' @ ''.'' @ ''152'') \<longrightarrow>
      CHR ''.'' \<notin> set ''11'' \<longrightarrow> CHR ''.'' \<notin> set ''2'' \<longrightarrow>
      cuda_version (environ notebook) = ''11'' @ ''.'' @ ''2''"
    by blast
  then have c: "cuda_version (environ notebook) = ''11.2''"
    by (simp add: notebook_fields)
  from b have d: "cuda_version (environ notebook_cpu) = ''*.*''"
    by (simp add: notebook_cpu_fields)
  have s: "str_of_nat 3 = ''3''" "str_of_nat 7 = ''7''"
    by (simp_all add: str_of_nat.simps)
  from a obtain f where
    "files notebook_once (pinned_path PREFIX) = Some f"
    "content f =
       (case files notebook (pinned_path PREFIX) of None \<Rightarrow> [] | Some g \<Rightarrow> content g) @
       ''python '' @ str_of_nat 3 @ ''.'' @ str_of_nat 7 @ ''.*'' @ NL @
       ''python_abi '' @ str_of_nat 3 @ ''.'' @ str_of_nat 7 @ ''.* *cp'' @
          str_of_nat 3 @ str_of_nat 7 @ ''*'' @ NL @
       ''cudatoolkit '' @ cuda_version (environ notebook) @ ''.*'' @ NL"
    by blast
  then have 1: "map_option content (files notebook_once ''/usr/local/conda-meta/pinned'') =
     Some (''python 3.7.*'' @ NL @ ''python_abi 3.7.* *cp37*'' @ NL @ ''cudatoolkit 11.2.*'' @ NL)"
    by (simp add: stub_paths notebook_no_pin_file c s)
  from b obtain g where
    "files (snd (install_from_url stub_host stub_url PREFIX None notebook_cpu))
       (pinned_path PREFIX) = Some g"
    "content g =
       (case files notebook_cpu (pinned_path PREFIX) of None \<Rightarrow> [] | Some g \<Rightarrow> content g) @
       ''python '' @ str_of_nat 3 @ ''.'' @ str_of_nat 7 @ ''.*'' @ NL @
       ''python_abi '' @ str_of_nat 3 @ ''.'' @ str_of_nat 7 @ ''.* *cp'' @
          str_of_nat 3 @ str_of_nat 7 @ ''*'' @ NL @
       ''cudatoolkit '' @ cuda_version (environ notebook_cpu) @ ''.*'' @ NL"
    by blast
  then have 2: "map_option content
     (files (snd (install_from_url stub_host stub_url PREFIX None notebook_cpu))
        ''/usr/local/conda-meta/pinned'') =
     Some (''python 3.7.*'' @ NL @ ''python_abi 3.7.* *cp37*'' @ NL @ ''cudatoolkit *.*.*'' @ NL)"
    by (simp add: stub_paths notebook_cpu_fields notebook_no_pin_file d s)
  show ?thesis
    using 1 2 stub_run_once stub_host_chmod stub_pinned_kept
    by (simp add: stub_paths notebook_fields notebook_cpu_fields)
qed

section \<open>Repeated runs\<close>

lemma install_n_pinned:
  assumes "posix_chmod h"
    and "process_keeps h [''bash'', installer_fn, ''-bfp'', prefix] (pinned_path prefix)"
  shows "install_n n h url prefix env w = (None, w') \<Longrightarrow>
     pinned_path prefix \<noteq> sys_executable w \<Longrightarrow>
     pinned_path prefix \<noteq> sys_executable w @ ''.real'' \<Longrightarrow>
     (case files w' (pinned_path prefix) of None \<Rightarrow> [] | Some f \<Rightarrow> content f) =
       (case files w (pinned_path prefix) of None \<Rightarrow> [] | Some g \<Rightarrow> content g) @
       concat (replicate n (pin_text w)) \<and>
     (0 < n \<longrightarrow> files w' (pinned_path prefix) \<noteq> None)"
proof (induction n arbitrary: w)
  case 0
  then show ?case by simp
next
  case (Suc n)
  from Suc.prems(1) obtain w1 where
    1: "install_from_url h url prefix env w = (None, w1)" and
    2: "install_n n h url prefix env w1 = (None, w')"
    by (auto split: prod.splits option.splits)
  have e: "sys_executable w1 = sys_executable w" "pin_text w1 = pin_text w"
    using install_from_url_frame [OF 1] by (simp_all add: pin_text_def)
  have p: "files w1 (pinned_path prefix) =
     Some (case files w (pinned_path prefix) of
             None \<Rightarrow> \<lparr>content = pin_text w, executable = False\<rparr>
           | Some g \<Rightarrow> g\<lparr>content := content g @ pin_text w\<rparr>)"
    using 1 assms Suc.prems(2,3) by (rule install_from_url_pinned)
  have i: "(case files w' (pinned_path prefix) of None \<Rightarrow> [] | Some f \<Rightarrow> content f) =
       (case files w1 (pinned_path prefix) of None \<Rightarrow> [] | Some g \<Rightarrow> content g) @
       concat (replicate n (pin_text w1)) \<and>
     (0 < n \<longrightarrow> files w' (pinned_path prefix) \<noteq> None)"
    using Suc.IH [OF 2] Suc.prems(2,3) e by simp
  show ?case
  proof (cases n)
    case 0
    with 2 have "w' = w1" by simp
    with p 0 show ?thesis by (simp split: option.splits)
  next
    case (Suc m)
    with i p e show ?thesis by (simp split: option.splits)
  qed
qed

text \<open>
  C6. After \<open>n\<close> runs in a row (\<open>n\<close> at least 1), all completing, the pin file
  \<^verbatim>\<open><prefix>/conda-meta/pinned\<close> holds what it held before, followed by \<open>n\<close> copies of the
  block of the three pin lines, in the order in which they were appended; when the file did
  not exist before, it holds exactly these \<open>n\<close> copies. No run rewrites or removes a line.
  (On a host where \<^verbatim>\<open>chmod +x\<close> sets the executable bit, with an installer that leaves
  the pin file alone and a pin file that is neither the executable nor its \<^verbatim>\<open>.real\<close>
  sibling.)
\<close>

theorem pin_file_after_n_runs:
  assumes "install_n n h url prefix env w = (None, w')"
    and "0 < n"
    and "posix_chmod h"
    and "process_keeps h [''bash'', installer_fn, ''-bfp'', prefix] (pinned_path prefix)"
    and "pinned_path prefix \<noteq> sys_executable w"
    and "pinned_path prefix \<noteq> sys_executable w @ ''.real''"
  shows "\<exists>f. files w' (pinned_path prefix) = Some f \<and>
     content f =
       (case files w (pinned_path prefix) of None \<Rightarrow> [] | Some g \<Rightarrow> content g) @
       concat (concat (replicate n
         (pin_lines (fst (version_info w)) (snd (version_info w)) (cuda_version (environ w))))) \<and>
     (files w (pinned_path prefix) = None \<longrightarrow>
        content f = concat (concat (replicate n
          (pin_lines (fst (version_info w)) (snd (version_info w)) (cuda_version (environ w))))))"
proof -
  have c: "concat (replicate n (concat xs)) = concat (concat (replicate n xs))" for xs :: "string list"
    by (induction n) simp_all
  from install_n_pinned [OF assms(3,4,1,5,6)] assms(2)
  obtain f where "files w' (pinned_path prefix) = Some f"
    "content f = (case files w (pinned_path prefix) of None \<Rightarrow> [] | Some g \<Rightarrow> content g) @
       concat (replicate n (pin_text w))"
    by (auto split: option.splits)
  then show ?thesis
    by (simp add: pin_text_def c)
qed

theorem pin_file_after_n_runs_witness:
  "install_n 2 stub_host stub_url PREFIX None notebook = (None, notebook_twice) \<and>
   posix_chmod stub_host \<and>
   process_keeps stub_host [''bash'', installer_fn, ''-bfp'', PREFIX] (pinned_path PREFIX) \<and>
   pinned_path PREFIX = ''/usr/local/conda-meta/pinned'' \<and>
   sys_executable notebook = ''/usr/bin/python3'' \<and>
   files notebook ''/usr/local/conda-meta/pinned'' = None \<and>
   map_option content (files notebook_twice ''/usr/local/conda-meta/pinned'') =
     Some (''python 3.7.*'' @ NL @ ''python_abi 3.7.* *cp37*'' @ NL @ ''cudatoolkit 11.2.*'' @ NL @
           ''python 3.7.*'' @ NL @ ''python_abi 3.7.* *cp37*'' @ NL @ ''cudatoolkit 11.2.*'' @ NL)"
proof -
  have r: "install_n 2 stub_host stub_url PREFIX None notebook = (None, notebook_twice)"
    using stub_run_once stub_run_twice by (simp add: numeral_2_eq_2)
  have n: "pinned_path PREFIX \<noteq> sys_executable notebook"
    "pinned_path PREFIX \<noteq> sys_executable notebook @ ''.real''"
    by (simp_all add: stub_paths notebook_fields)
  have v: "cuda_version (environ notebook) = ''11.2''"
    using cuda_version_major_minor [of "environ notebook" "''11''" "''2''" "''152''"]
    by (simp add: notebook_fields)
  have s: "str_of_nat 3 = ''3''" "str_of_nat 7 = ''7''"
    by (simp_all add: str_of_nat.simps)
  from pin_file_after_n_runs [OF r _ stub_host_chmod stub_pinned_kept n]
  obtain f where "files notebook_twice (pinned_path PREFIX) = Some f"
    "content f =
       (case files notebook (pinned_path PREFIX) of None \<Rightarrow> [] | Some g \<Rightarrow> content g) @
       concat (concat (replicate 2
         (pin_lines (fst (version_info notebook)) (snd (version_info notebook))
            (cuda_version (environ notebook)))))"
    by auto
  then have "map_option content (files notebook_twice ''/usr/local/conda-meta/pinned'') =
     Some (''python 3.7.*'' @ NL @ ''python_abi 3.7.* *cp37*'' @ NL @ ''cudatoolkit 11.2.*'' @ NL @
           ''python 3.7.*'' @ NL @ ''python_abi 3.7.* *cp37*'' @ NL @ ''cudatoolkit 11.2.*'' @ NL)"
    by (simp add: stub_paths notebook_no_pin_file notebook_fields pin_lines_def v s numeral_2_eq_2)
  then show ?thesis
    using r stub_host_chmod stub_pinned_kept
    by (simp add: stub_paths notebook_fields notebook_no_pin_file)
qed

end
